theory Spec2Isabelle
  imports Complex_Main
begin

section \<open>JavaScript numbers, idealised\<close>

text \<open>
  The functions of \<^verbatim>\<open>excel.js\<close> compute on JavaScript numbers. The embedding keeps the
  special values of a JavaScript number (\<^verbatim>\<open>NaN\<close>, \<^verbatim>\<open>Infinity\<close>, \<^verbatim>\<open>-Infinity\<close>) and the
  rules by which the operators produce and propagate them, and idealises the finite
  values: a finite number is a real, and arithmetic on finite numbers is exact (no
  rounding, no overflow, no underflow). There is one zero: where JavaScript would
  produce \<^verbatim>\<open>-0\<close> the model has \<open>Fin 0\<close>, and a division by zero takes its sign from the
  numerator alone. The operations rounded to doubles, for the properties that depend on
  rounding, follow the financial functions.
\<close>

datatype jsnum = Fin real | PInf | NInf | NaN

fun isNaN :: "jsnum \<Rightarrow> bool" where
  "isNaN NaN = True"
| "isNaN _ = False"

fun isFinite :: "jsnum \<Rightarrow> bool" where
  "isFinite (Fin _) = True"
| "isFinite _ = False"

text \<open>Strict equality \<^verbatim>\<open>===\<close> on numbers: \<^verbatim>\<open>NaN\<close> equals nothing, itself included.\<close>

fun seq :: "jsnum \<Rightarrow> jsnum \<Rightarrow> bool" where
  "seq NaN _ = False"
| "seq _ NaN = False"
| "seq a b = (a = b)"

instantiation jsnum :: uminus
begin

fun uminus_jsnum :: "jsnum \<Rightarrow> jsnum" where
  "- Fin a = Fin (- a)"
| "- PInf = NInf"
| "- NInf = PInf"
| "- NaN = NaN"

instance ..

end

instantiation jsnum :: plus
begin

fun plus_jsnum :: "jsnum \<Rightarrow> jsnum \<Rightarrow> jsnum" where
  "NaN + _ = NaN"
| "_ + NaN = NaN"
| "Fin a + Fin b = Fin (a + b)"
| "PInf + NInf = NaN"
| "NInf + PInf = NaN"
| "PInf + _ = PInf"
| "_ + PInf = PInf"
| "NInf + _ = NInf"
| "_ + NInf = NInf"

instance ..

end

instantiation jsnum :: minus
begin

definition minus_jsnum :: "jsnum \<Rightarrow> jsnum \<Rightarrow> jsnum" where
  "minus_jsnum a b = a + (- b)"

instance ..

end

text \<open>The sign of a product with an infinity; zero times infinity is \<^verbatim>\<open>NaN\<close>.\<close>

fun signed_inf :: "real \<Rightarrow> jsnum" where
  "signed_inf a = (if a = 0 then NaN else if 0 < a then PInf else NInf)"

instantiation jsnum :: times
begin

fun times_jsnum :: "jsnum \<Rightarrow> jsnum \<Rightarrow> jsnum" where
  "NaN * _ = NaN"
| "_ * NaN = NaN"
| "Fin a * Fin b = Fin (a * b)"
| "Fin a * PInf = signed_inf a"
| "Fin a * NInf = signed_inf (- a)"
| "PInf * Fin b = signed_inf b"
| "NInf * Fin b = signed_inf (- b)"
| "PInf * PInf = PInf"
| "PInf * NInf = NInf"
| "NInf * PInf = NInf"
| "NInf * NInf = PInf"

instance ..

end

instantiation jsnum :: inverse
begin

definition inverse_jsnum :: "jsnum \<Rightarrow> jsnum" where
  "inverse_jsnum a =
     (case a of Fin b \<Rightarrow> (if b = 0 then PInf else Fin (1 / b)) | NaN \<Rightarrow> NaN | _ \<Rightarrow> Fin 0)"

fun divide_jsnum :: "jsnum \<Rightarrow> jsnum \<Rightarrow> jsnum" where
  "divide_jsnum NaN _ = NaN"
| "divide_jsnum _ NaN = NaN"
| "divide_jsnum (Fin a) (Fin b) = (if b = 0 then signed_inf a else Fin (a / b))"
| "divide_jsnum (Fin a) PInf = Fin 0"
| "divide_jsnum (Fin a) NInf = Fin 0"
| "divide_jsnum PInf (Fin b) = (if 0 \<le> b then PInf else NInf)"
| "divide_jsnum NInf (Fin b) = (if 0 \<le> b then NInf else PInf)"
| "divide_jsnum PInf _ = NaN"
| "divide_jsnum NInf _ = NaN"

instance ..

end

text \<open>
  The relational operators \<^verbatim>\<open><\<close> and \<^verbatim>\<open><=\<close> (and \<^verbatim>\<open>>\<close>, \<^verbatim>\<open>>=\<close> with the operands
  swapped): every comparison with \<^verbatim>\<open>NaN\<close> is false, so \<open>\<not> a < b\<close> does not give
  \<open>b \<le> a\<close>.
\<close>

instantiation jsnum :: ord
begin

fun less_jsnum :: "jsnum \<Rightarrow> jsnum \<Rightarrow> bool" where
  "NaN < _ = False"
| "_ < NaN = False"
| "Fin a < Fin b = (a < b)"
| "_ < NInf = False"
| "PInf < _ = False"
| "NInf < _ = True"
| "_ < PInf = True"

fun less_eq_jsnum :: "jsnum \<Rightarrow> jsnum \<Rightarrow> bool" where
  "NaN \<le> _ = False"
| "_ \<le> NaN = False"
| "Fin a \<le> Fin b = (a \<le> b)"
| "NInf \<le> _ = True"
| "_ \<le> PInf = True"
| "_ \<le> NInf = False"
| "PInf \<le> _ = False"

instance ..

end

subsection \<open>The \<^verbatim>\<open>Math\<close> functions the source calls\<close>

fun Math_abs :: "jsnum \<Rightarrow> jsnum" where
  "Math_abs (Fin a) = Fin \<bar>a\<bar>"
| "Math_abs PInf = PInf"
| "Math_abs NInf = PInf"
| "Math_abs NaN = NaN"

fun Math_exp :: "jsnum \<Rightarrow> jsnum" where
  "Math_exp (Fin a) = Fin (exp a)"
| "Math_exp PInf = PInf"
| "Math_exp NInf = Fin 0"
| "Math_exp NaN = NaN"

fun Math_log :: "jsnum \<Rightarrow> jsnum" where
  "Math_log (Fin a) = (if a < 0 then NaN else if a = 0 then NInf else Fin (ln a))"
| "Math_log PInf = PInf"
| "Math_log NInf = NaN"
| "Math_log NaN = NaN"

text \<open>
  \<^verbatim>\<open>Math.pow(base, exponent)\<close>. A zero exponent gives 1 whatever the base; a \<^verbatim>\<open>NaN\<close>
  operand gives \<^verbatim>\<open>NaN\<close> otherwise; a base of absolute value 1 with an infinite exponent
  gives \<^verbatim>\<open>NaN\<close>; a negative finite base needs an integer exponent, whose parity gives the
  sign.
\<close>

definition is_int :: "real \<Rightarrow> bool" where
  "is_int y = (y = of_int \<lfloor>y\<rfloor>)"

definition is_odd_int :: "real \<Rightarrow> bool" where
  "is_odd_int y = (is_int y \<and> odd \<lfloor>y\<rfloor>)"

fun Math_pow :: "jsnum \<Rightarrow> jsnum \<Rightarrow> jsnum" where
  "Math_pow _ NaN = NaN"
| "Math_pow b (Fin y) =
     (if y = 0 then Fin 1 else
      case b of
        NaN \<Rightarrow> NaN
      | PInf \<Rightarrow> (if 0 < y then PInf else Fin 0)
      | NInf \<Rightarrow> (if 0 < y then (if is_odd_int y then NInf else PInf) else Fin 0)
      | Fin x \<Rightarrow>
          (if 0 < x then Fin (x powr y)
           else if x = 0 then (if 0 < y then Fin 0 else PInf)
           else if is_odd_int y then Fin (- (\<bar>x\<bar> powr y))
           else if is_int y then Fin (\<bar>x\<bar> powr y)
           else NaN))"
| "Math_pow b PInf =
     (case Math_abs b of
        NaN \<Rightarrow> NaN
      | Fin a \<Rightarrow> (if 1 < a then PInf else if a = 1 then NaN else Fin 0)
      | _ \<Rightarrow> PInf)"
| "Math_pow b NInf =
     (case Math_abs b of
        NaN \<Rightarrow> NaN
      | Fin a \<Rightarrow> (if 1 < a then Fin 0 else if a = 1 then NaN else PInf)
      | _ \<Rightarrow> Fin 0)"

text \<open>
  \<^verbatim>\<open>(typeof v === 'undefined') ? d : v\<close>: an optional trailing parameter is an
  \<open>option\<close>, \<open>None\<close> when the caller leaves it out.
\<close>

fun undefined_or :: "jsnum \<Rightarrow> jsnum option \<Rightarrow> jsnum" where
  "undefined_or d None = d"
| "undefined_or d (Some v) = v"

section \<open>The financial functions\<close>

subsection \<open>\<^verbatim>\<open>PV(rate, periods, payment, future, type)\<close>\<close>

definition PV :: "jsnum \<Rightarrow> jsnum \<Rightarrow> jsnum \<Rightarrow> jsnum \<Rightarrow> jsnum option \<Rightarrow> jsnum" where
  "PV rate periods payment future type =
     (let type = undefined_or (Fin 0) type in
      if seq rate (Fin 0) then
        - payment * periods - future
      else
        (((Fin 1 - Math_pow (Fin 1 + rate) periods) / rate) * payment * (Fin 1 + rate * type) - future)
          / Math_pow (Fin 1 + rate) periods)"

subsection \<open>\<^verbatim>\<open>FV(rate, periods, payment, value, type)\<close>\<close>

definition FV :: "jsnum \<Rightarrow> jsnum \<Rightarrow> jsnum \<Rightarrow> jsnum \<Rightarrow> jsnum option \<Rightarrow> jsnum" where
  "FV rate periods payment val type =
     (let type = undefined_or (Fin 0) type;
          result =
            (if seq rate (Fin 0) then
               val + payment * periods
             else
               let term = Math_pow (Fin 1 + rate) periods in
               if seq type (Fin 1) then
                 val * term + payment * (Fin 1 + rate) * (term - Fin 1) / rate
               else
                 val * term + payment * (term - Fin 1) / rate)
      in - result)"

subsection \<open>\<^verbatim>\<open>PMT(rate, periods, present, future, type)\<close>\<close>

definition PMT :: "jsnum \<Rightarrow> jsnum \<Rightarrow> jsnum \<Rightarrow> jsnum option \<Rightarrow> jsnum option \<Rightarrow> jsnum" where
  "PMT rate periods present future type =
     (let type = undefined_or (Fin 0) type;
          future = undefined_or (Fin 0) future;
          result =
            (if seq rate (Fin 0) then
               (present + future) / periods
             else
               let term = Math_pow (Fin 1 + rate) periods in
               if seq type (Fin 1) then
                 (future * rate / (term - Fin 1) + present * rate / (Fin 1 - Fin 1 / term)) / (Fin 1 + rate)
               else
                 future * rate / (term - Fin 1) + present * rate / (Fin 1 - Fin 1 / term))
      in - result)"

subsection \<open>\<^verbatim>\<open>IPMT(rate, period, periods, present, future, type)\<close>\<close>

definition IPMT :: "jsnum \<Rightarrow> jsnum \<Rightarrow> jsnum \<Rightarrow> jsnum \<Rightarrow> jsnum option \<Rightarrow> jsnum option \<Rightarrow> jsnum" where
  "IPMT rate period periods present future type =
     (let type = undefined_or (Fin 0) type;
          payment = PMT rate periods present future (Some type);
          interest =
            (if seq period (Fin 1) then
               (if seq type (Fin 1) then Fin 0 else - present)
             else
               (if seq type (Fin 1) then
                  FV rate (period - Fin 2) payment present (Some (Fin 1)) - payment
                else
                  FV rate (period - Fin 1) payment present (Some (Fin 0))))
      in interest * rate)"

subsection \<open>\<^verbatim>\<open>PPMT(rate, period, periods, present, future, type)\<close>\<close>

definition PPMT :: "jsnum \<Rightarrow> jsnum \<Rightarrow> jsnum \<Rightarrow> jsnum \<Rightarrow> jsnum option \<Rightarrow> jsnum option \<Rightarrow> jsnum" where
  "PPMT rate period periods present future type =
     PMT rate periods present future type - IPMT rate period periods present future type"

subsection \<open>\<^verbatim>\<open>NPER(rate, payment, present, future, type)\<close>\<close>

definition NPER_num :: "jsnum \<Rightarrow> jsnum \<Rightarrow> jsnum \<Rightarrow> jsnum \<Rightarrow> jsnum" where
  "NPER_num rate payment future type = payment * (Fin 1 + rate * type) - future * rate"

definition NPER_den :: "jsnum \<Rightarrow> jsnum \<Rightarrow> jsnum \<Rightarrow> jsnum \<Rightarrow> jsnum" where
  "NPER_den rate payment present type = present * rate + payment * (Fin 1 + rate * type)"

definition NPER :: "jsnum \<Rightarrow> jsnum \<Rightarrow> jsnum \<Rightarrow> jsnum option \<Rightarrow> jsnum option \<Rightarrow> jsnum" where
  "NPER rate payment present future type =
     (let type = undefined_or (Fin 0) type;
          future = undefined_or (Fin 0) future;
          num = NPER_num rate payment future type;
          den = NPER_den rate payment present type
      in Math_log (num / den) / Math_log (Fin 1 + rate))"

subsection \<open>\<^verbatim>\<open>RATE(periods, payment, present, future, type, guess)\<close>\<close>

definition epsMax :: jsnum where
  "epsMax = Fin (1 / 10 ^ 10)"

definition iterMax :: nat where
  "iterMax = 50"

text \<open>
  The variables of \<^verbatim>\<open>RATE\<close> that the loop reads and writes. The counter \<^verbatim>\<open>i\<close> only
  takes the values 0 to 50 and is a natural number here.
\<close>

record RATE_vars =
  v_y :: jsnum
  v_y0 :: jsnum
  v_y1 :: jsnum
  v_x0 :: jsnum
  v_x1 :: jsnum
  v_f :: jsnum
  v_i :: nat
  v_rate :: jsnum

text \<open>
  The \<^verbatim>\<open>if\<close>/\<^verbatim>\<open>else\<close> block that stands before the loop and again inside it: from the
  current \<^verbatim>\<open>rate\<close> and \<^verbatim>\<open>f\<close> it assigns \<^verbatim>\<open>y\<close>, and \<^verbatim>\<open>f\<close> in the second branch only. The
  result is the pair of \<^verbatim>\<open>f\<close> and \<^verbatim>\<open>y\<close> after the block.
\<close>

definition RATE_block :: "jsnum \<Rightarrow> jsnum \<Rightarrow> jsnum \<Rightarrow> jsnum \<Rightarrow> jsnum \<Rightarrow> jsnum \<Rightarrow> jsnum \<Rightarrow> jsnum \<times> jsnum" where
  "RATE_block periods payment present future type rate f =
     (if Math_abs rate < epsMax then
        (f, present * (Fin 1 + periods * rate) + payment * (Fin 1 + rate * type) * periods + future)
      else
        let f = Math_exp (periods * Math_log (Fin 1 + rate)) in
        (f, present * f + payment * (Fin 1 / rate + type) * (f - Fin 1) + future))"

text \<open>The statements before the loop, from \<^verbatim>\<open>var rate=guess\<close> to \<^verbatim>\<open>x1=rate\<close>.\<close>

definition RATE_init :: "jsnum \<Rightarrow> jsnum \<Rightarrow> jsnum \<Rightarrow> jsnum \<Rightarrow> jsnum \<Rightarrow> jsnum \<Rightarrow> RATE_vars" where
  "RATE_init periods payment present future type guess =
     (let rate = guess;
          (f, y) = RATE_block periods payment present future type rate (Fin 0);
          y0 = present + payment * periods + future;
          y1 = present * f + payment * (Fin 1 / rate + type) * (f - Fin 1) + future
      in \<lparr>v_y = y, v_y0 = y0, v_y1 = y1, v_x0 = Fin 0, v_x1 = rate, v_f = f, v_i = 0, v_rate = rate\<rparr>)"

text \<open>The loop condition and one run of the loop body.\<close>

definition RATE_cond :: "RATE_vars \<Rightarrow> bool" where
  "RATE_cond s = (Math_abs (v_y0 s - v_y1 s) > epsMax \<and> v_i s < iterMax)"

definition RATE_body :: "jsnum \<Rightarrow> jsnum \<Rightarrow> jsnum \<Rightarrow> jsnum \<Rightarrow> jsnum \<Rightarrow> RATE_vars \<Rightarrow> RATE_vars" where
  "RATE_body periods payment present future type s =
     (let rate = (v_y1 s * v_x0 s - v_y0 s * v_x1 s) / (v_y1 s - v_y0 s);
          x0 = v_x1 s;
          x1 = rate;
          (f, y) = RATE_block periods payment present future type rate (v_f s);
          y0 = v_y1 s;
          y1 = y
      in \<lparr>v_y = y, v_y0 = y0, v_y1 = y1, v_x0 = x0, v_x1 = x1, v_f = f, v_i = Suc (v_i s), v_rate = rate\<rparr>)"

function RATE_while :: "jsnum \<Rightarrow> jsnum \<Rightarrow> jsnum \<Rightarrow> jsnum \<Rightarrow> jsnum \<Rightarrow> RATE_vars \<Rightarrow> RATE_vars" where
  "RATE_while periods payment present future type s =
     (if RATE_cond s then
        RATE_while periods payment present future type (RATE_body periods payment present future type s)
      else s)"
  by pat_completeness auto
termination
  by (relation "measure (\<lambda>(periods, payment, present, future, type, s). iterMax - v_i s)")
     (auto simp: RATE_cond_def RATE_body_def Let_def split: prod.splits)

definition RATE_run :: "jsnum \<Rightarrow> jsnum \<Rightarrow> jsnum \<Rightarrow> jsnum option \<Rightarrow> jsnum option \<Rightarrow> jsnum option \<Rightarrow> RATE_vars" where
  "RATE_run periods payment present future type guess =
     (let guess = undefined_or (Fin (1 / 100)) guess;
          future = undefined_or (Fin 0) future;
          type = undefined_or (Fin 0) type
      in RATE_while periods payment present future type
           (RATE_init periods payment present future type guess))"

definition RATE :: "jsnum \<Rightarrow> jsnum \<Rightarrow> jsnum \<Rightarrow> jsnum option \<Rightarrow> jsnum option \<Rightarrow> jsnum option \<Rightarrow> jsnum" where
  "RATE periods payment present future type guess =
     v_rate (RATE_run periods payment present future type guess)"

text \<open>
  The variables after \<open>k\<close> runs of the loop body, started from the statements before the
  loop, with no loop test in between: the states a run of \<^verbatim>\<open>RATE\<close> passes through.
\<close>

definition RATE_after :: "jsnum \<Rightarrow> jsnum \<Rightarrow> jsnum \<Rightarrow> jsnum option \<Rightarrow> jsnum option \<Rightarrow> jsnum option \<Rightarrow> nat \<Rightarrow> RATE_vars" where
  "RATE_after periods payment present future type guess k =
     (let guess = undefined_or (Fin (1 / 100)) guess;
          future = undefined_or (Fin 0) future;
          type = undefined_or (Fin 0) type
      in (RATE_body periods payment present future type ^^ k)
           (RATE_init periods payment present future type guess))"

subsection \<open>\<^verbatim>\<open>EFFECT(rate, periods)\<close> and \<^verbatim>\<open>NOMINAL(rate, periods)\<close>\<close>

text \<open>
  \<^verbatim>\<open>parseInt(periods, 10)\<close> on a number: the number is first written as a string, and
  the digits before the first character that is not a digit are read back. A number
  from \<open>10\<^sup>-\<^sup>6\<close> up to \<open>10\<^sup>2\<^sup>1\<close> (exclusive) is written in positional notation, so the
  result is the number truncated toward zero; a larger or a smaller one is written as
  \<^verbatim>\<open>d.ddde+NN\<close>, so the result is its leading digit; \<^verbatim>\<open>NaN\<close> and the infinities are
  written as words and give \<^verbatim>\<open>NaN\<close>. The leading digit is that of the real number.
\<close>

definition leading_digit :: "real \<Rightarrow> int" where
  "leading_digit a = \<lfloor>a / 10 powr of_int \<lfloor>log 10 a\<rfloor>\<rfloor>"

fun parseInt10 :: "jsnum \<Rightarrow> jsnum" where
  "parseInt10 (Fin x) =
     (let a = \<bar>x\<bar> in
      if a = 0 then Fin 0
      else if 10 ^ 21 \<le> a \<or> a < 1 / 10 ^ 6 then Fin (sgn x * of_int (leading_digit a))
      else Fin (sgn x * of_int \<lfloor>a\<rfloor>))"
| "parseInt10 _ = NaN"

definition EFFECT :: "jsnum \<Rightarrow> jsnum \<Rightarrow> string + jsnum" where
  "EFFECT rate periods =
     (if isNaN rate \<or> isNaN periods then Inl ''#VALUE!''
      else if rate \<le> Fin 0 \<or> periods < Fin 1 then Inl ''#NUM!''
      else
        let periods = parseInt10 periods in
        Inr (Math_pow (Fin 1 + rate / periods) periods - Fin 1))"

definition NOMINAL :: "jsnum \<Rightarrow> jsnum \<Rightarrow> string + jsnum" where
  "NOMINAL rate periods =
     (if isNaN rate \<or> isNaN periods then Inl ''#VALUE!''
      else if rate \<le> Fin 0 \<or> periods < Fin 1 then Inl ''#NUM!''
      else
        let periods = parseInt10 periods in
        Inr ((Math_pow (rate + Fin 1) (Fin 1 / periods) - Fin 1) * periods))"

section \<open>Double precision\<close>

text \<open>
  A JavaScript number is an IEEE 754 double. The definitions above compute with the exact
  reals; the definitions of this section round the result of every arithmetic operation
  to the nearest double, ties to even, as the source's operators do. \<open>rnd\<close> rounds a real
  to 53 significant bits with gradual underflow below \<open>2\<^sup>-\<^sup>1\<^sup>0\<^sup>2\<^sup>2\<close>; \<open>fl\<close> rounds a number
  and sends a result of magnitude \<open>2\<^sup>1\<^sup>0\<^sup>2\<^sup>4\<close> or more to the infinity of its sign.
  \<^verbatim>\<open>Math.pow\<close> is taken as correctly rounded (the language leaves its accuracy to the
  implementation); unary minus is exact.
\<close>

definition round_even :: "real \<Rightarrow> int" where
  "round_even y =
     (let f = \<lfloor>y\<rfloor>; d = y - of_int f in
      if d < 1 / 2 then f else if 1 / 2 < d then f + 1 else if even f then f else f + 1)"

definition ulp :: "real \<Rightarrow> real" where
  "ulp x = 2 powr of_int (max \<lfloor>log 2 \<bar>x\<bar>\<rfloor> (- 1022) - 52)"

definition rnd :: "real \<Rightarrow> real" where
  "rnd x = (if x = 0 then 0 else of_int (round_even (x / ulp x)) * ulp x)"

fun fl :: "jsnum \<Rightarrow> jsnum" where
  "fl (Fin x) =
     (let r = rnd x in
      if 2 ^ 1024 \<le> \<bar>r\<bar> then (if 0 < r then PInf else NInf) else Fin r)"
| "fl v = v"

text \<open>
  \<^verbatim>\<open>FV\<close>, \<^verbatim>\<open>PMT\<close>, \<^verbatim>\<open>IPMT\<close>, \<^verbatim>\<open>PPMT\<close> and \<^verbatim>\<open>EFFECT\<close> once more, with the same statements
  and every arithmetic result rounded.
\<close>

definition FV_dbl :: "jsnum \<Rightarrow> jsnum \<Rightarrow> jsnum \<Rightarrow> jsnum \<Rightarrow> jsnum option \<Rightarrow> jsnum" where
  "FV_dbl rate periods payment val type =
     (let type = undefined_or (Fin 0) type;
          result =
            (if seq rate (Fin 0) then
               fl (val + fl (payment * periods))
             else
               let term = fl (Math_pow (fl (Fin 1 + rate)) periods) in
               if seq type (Fin 1) then
                 fl (fl (val * term)
                     + fl (fl (fl (payment * fl (Fin 1 + rate)) * fl (term - Fin 1)) / rate))
               else
                 fl (fl (val * term) + fl (fl (payment * fl (term - Fin 1)) / rate)))
      in - result)"

definition PMT_dbl :: "jsnum \<Rightarrow> jsnum \<Rightarrow> jsnum \<Rightarrow> jsnum option \<Rightarrow> jsnum option \<Rightarrow> jsnum" where
  "PMT_dbl rate periods present future type =
     (let type = undefined_or (Fin 0) type;
          future = undefined_or (Fin 0) future;
          result =
            (if seq rate (Fin 0) then
               fl (fl (present + future) / periods)
             else
               let term = fl (Math_pow (fl (Fin 1 + rate)) periods) in
               if seq type (Fin 1) then
                 fl (fl (fl (fl (future * rate) / fl (term - Fin 1))
                         + fl (fl (present * rate) / fl (Fin 1 - fl (Fin 1 / term))))
                     / fl (Fin 1 + rate))
               else
                 fl (fl (fl (future * rate) / fl (term - Fin 1))
                     + fl (fl (present * rate) / fl (Fin 1 - fl (Fin 1 / term)))))
      in - result)"

definition IPMT_dbl :: "jsnum \<Rightarrow> jsnum \<Rightarrow> jsnum \<Rightarrow> jsnum \<Rightarrow> jsnum option \<Rightarrow> jsnum option \<Rightarrow> jsnum" where
  "IPMT_dbl rate period periods present future type =
     (let type = undefined_or (Fin 0) type;
          payment = PMT_dbl rate periods present future (Some type);
          interest =
            (if seq period (Fin 1) then
               (if seq type (Fin 1) then Fin 0 else - present)
             else
               (if seq type (Fin 1) then
                  fl (FV_dbl rate (fl (period - Fin 2)) payment present (Some (Fin 1)) - payment)
                else
                  FV_dbl rate (fl (period - Fin 1)) payment present (Some (Fin 0))))
      in fl (interest * rate))"

definition PPMT_dbl :: "jsnum \<Rightarrow> jsnum \<Rightarrow> jsnum \<Rightarrow> jsnum \<Rightarrow> jsnum option \<Rightarrow> jsnum option \<Rightarrow> jsnum" where
  "PPMT_dbl rate period periods present future type =
     fl (PMT_dbl rate periods present future type
         - IPMT_dbl rate period periods present future type)"

definition EFFECT_dbl :: "jsnum \<Rightarrow> jsnum \<Rightarrow> string + jsnum" where
  "EFFECT_dbl rate periods =
     (if isNaN rate \<or> isNaN periods then Inl ''#VALUE!''
      else if rate \<le> Fin 0 \<or> periods < Fin 1 then Inl ''#NUM!''
      else
        let periods = parseInt10 periods in
        Inr (fl (fl (Math_pow (fl (Fin 1 + fl (rate / periods))) periods) - Fin 1)))"

declare RATE_while.simps [simp del]

section \<open>Facts about the number model\<close>

lemma minus_Fin [simp]: "Fin a - Fin b = Fin (a - b)"
  by (simp add: minus_jsnum_def)

lemma div_zero_not_finite: "\<not> isFinite (a / Fin 0)"
  by (cases a) auto

lemma powr_ne_one:
  fixes x y :: real
  assumes "0 < x" "x \<noteq> 1" "y \<noteq> 0"
  shows "x powr y \<noteq> 1"
  using assms by (metis powr_eq_one_iff_gen)

lemma leading_digit_ge1:
  assumes "0 < a"
  shows "1 \<le> leading_digit a"
proof -
  have "of_int \<lfloor>log 10 a\<rfloor> \<le> log 10 a"
    by simp
  then have "10 powr of_int \<lfloor>log 10 a\<rfloor> \<le> 10 powr log 10 a"
    by (simp only: powr_le_cancel_iff)
  also have "\<dots> = a"
    using assms by simp
  finally have "1 \<le> a / 10 powr of_int \<lfloor>log 10 a\<rfloor>"
    by (simp add: field_simps)
  then show ?thesis
    unfolding leading_digit_def by linarith
qed

text \<open>After the check \<^verbatim>\<open>periods<1\<close> has passed, \<^verbatim>\<open>parseInt\<close> gives a number that is at least 1.\<close>

lemma parseInt10_ge1:
  assumes "1 \<le> x"
  shows "\<exists>p. parseInt10 (Fin x) = Fin p \<and> 1 \<le> p"
proof -
  have s: "\<bar>x\<bar> = x" "sgn x = 1" "x \<noteq> 0"
    using assms by auto
  have "1 \<le> leading_digit x"
    using assms by (intro leading_digit_ge1) simp
  moreover have "1 \<le> \<lfloor>x\<rfloor>"
    using assms by linarith
  ultimately show ?thesis
    using s by (simp add: Let_def)
qed

section \<open>Facts about rounding\<close>

lemma round_even_err: "\<bar>of_int (round_even y) - y\<bar> \<le> 1 / 2"
proof -
  have "of_int \<lfloor>y\<rfloor> \<le> y" "y < of_int \<lfloor>y\<rfloor> + 1"
    by linarith+
  then show ?thesis
    by (auto simp add: round_even_def Let_def)
qed

lemma round_even_of_int [simp]: "round_even (of_int m) = m"
  by (simp add: round_even_def)

lemma ulp_pos [simp]: "0 < ulp x"
  by (simp add: ulp_def)

lemma ulp_neq0 [simp]: "ulp x \<noteq> 0"
  using ulp_pos[of x] by linarith

lemma two_powr_neg: "(2::real) powr (- real n) = 1 / 2 ^ n"
  by (simp add: powr_minus_divide powr_realpow)

lemma two_powr_m1074: "(2::real) powr of_int (- 1074) = 1 / 2 ^ 1074"
  using two_powr_neg[of 1074] by simp

lemma rnd_ulp_err: "\<bar>rnd x - x\<bar> \<le> ulp x / 2"
proof (cases "x = 0")
  case True
  then show ?thesis by (simp add: rnd_def less_imp_le)
next
  case False
  have "\<bar>of_int (round_even (x / ulp x)) - x / ulp x\<bar> \<le> 1 / 2"
    by (rule round_even_err)
  then have "\<bar>of_int (round_even (x / ulp x)) - x / ulp x\<bar> * ulp x \<le> 1 / 2 * ulp x"
    by (intro mult_right_mono) (simp_all add: less_imp_le)
  moreover have "\<bar>of_int (round_even (x / ulp x)) - x / ulp x\<bar> * ulp x
      = \<bar>of_int (round_even (x / ulp x)) * ulp x - x\<bar>"
  proof -
    have "\<bar>of_int (round_even (x / ulp x)) - x / ulp x\<bar> * ulp x
        = \<bar>(of_int (round_even (x / ulp x)) - x / ulp x) * ulp x\<bar>"
      by (simp add: abs_mult less_imp_le)
    also have "(of_int (round_even (x / ulp x)) - x / ulp x) * ulp x
        = of_int (round_even (x / ulp x)) * ulp x - x"
      using ulp_pos[of x] by (simp add: field_simps)
    finally show ?thesis .
  qed
  ultimately show ?thesis
    using False by (simp add: rnd_def)
qed

lemma two_powr_floor_log:
  assumes "x \<noteq> 0"
  shows "2 powr of_int \<lfloor>log 2 \<bar>x\<bar>\<rfloor> \<le> \<bar>x\<bar>" and "\<bar>x\<bar> < 2 powr of_int (\<lfloor>log 2 \<bar>x\<bar>\<rfloor> + 1)"
proof -
  have pos: "0 < \<bar>x\<bar>" using assms by simp
  have "of_int \<lfloor>log 2 \<bar>x\<bar>\<rfloor> \<le> log 2 \<bar>x\<bar>" by simp
  then have "2 powr of_int \<lfloor>log 2 \<bar>x\<bar>\<rfloor> \<le> 2 powr log 2 \<bar>x\<bar>"
    by (simp only: powr_le_cancel_iff)
  then show "2 powr of_int \<lfloor>log 2 \<bar>x\<bar>\<rfloor> \<le> \<bar>x\<bar>"
    using pos by simp
  have "log 2 \<bar>x\<bar> < of_int (\<lfloor>log 2 \<bar>x\<bar>\<rfloor> + 1)" by linarith
  then have "2 powr log 2 \<bar>x\<bar> < 2 powr of_int (\<lfloor>log 2 \<bar>x\<bar>\<rfloor> + 1)"
    by (simp only: powr_less_cancel_iff)
  then show "\<bar>x\<bar> < 2 powr of_int (\<lfloor>log 2 \<bar>x\<bar>\<rfloor> + 1)"
    using pos by simp
qed

lemma ulp_le:
  assumes "x \<noteq> 0"
  shows "ulp x \<le> \<bar>x\<bar> / 2 ^ 52 + 1 / 2 ^ 1074"
proof -
  note False = assms
  let ?e = "\<lfloor>log 2 \<bar>x\<bar>\<rfloor>"
  show ?thesis
  proof (cases "- 1022 \<le> ?e")
    case True
    then have m: "max ?e (- 1022) = ?e"
      by (rule max_absorb1)
    have "ulp x = 2 powr of_int (?e - 52)"
      unfolding ulp_def m ..
    also have "\<dots> = 2 powr of_int ?e / 2 ^ 52"
      by (simp add: powr_diff)
    also have "\<dots> \<le> \<bar>x\<bar> / 2 ^ 52"
      using two_powr_floor_log(1)[OF False] by (simp add: divide_right_mono)
    finally show ?thesis by simp
  next
    case False
    then have "max ?e (- 1022) - 52 = - 1074" by linarith
    then have "ulp x = 2 powr of_int (- 1074)"
      unfolding ulp_def by (rule arg_cong)
    also have "\<dots> = 1 / 2 ^ 1074"
      by (rule two_powr_m1074)
    finally show ?thesis by simp
  qed
qed

lemma rnd_zero [simp]: "rnd 0 = 0"
  by (simp add: rnd_def)

lemma rnd_err: "\<bar>rnd x - x\<bar> \<le> \<bar>x\<bar> / 2 ^ 53 + 1 / 2 ^ 1075"
proof (cases "x = 0")
  case True
  then show ?thesis by simp
next
  case False
  then show ?thesis
    using rnd_ulp_err[of x] ulp_le[of x] by simp
qed

lemma floor_log2_eq:
  assumes "2 powr of_int k \<le> \<bar>x\<bar>" "\<bar>x\<bar> < 2 powr of_int (k + 1)"
  shows "\<lfloor>log 2 \<bar>x\<bar>\<rfloor> = k"
proof -
  have "(0::real) < 2 powr of_int k"
    by simp
  with assms(1) have pos: "0 < \<bar>x\<bar>"
    by linarith
  have "log 2 (2 powr of_int k) \<le> log 2 \<bar>x\<bar>"
    using assms(1) pos by (subst log_le_cancel_iff) simp_all
  then have a: "of_int k \<le> log 2 \<bar>x\<bar>"
    by simp
  have "log 2 \<bar>x\<bar> < log 2 (2 powr of_int (k + 1))"
    using assms(2) pos by (subst log_less_cancel_iff) simp_all
  then have b: "log 2 \<bar>x\<bar> < of_int k + 1"
    by simp
  show ?thesis
    using a b by linarith
qed

lemma rnd_exact:
  assumes "x / ulp x = of_int n"
  shows "rnd x = x"
proof (cases "x = 0")
  case True
  then show ?thesis by simp
next
  case False
  have "rnd x = of_int n * ulp x"
    using False assms by (simp add: rnd_def)
  also have "\<dots> = x"
    using assms by (simp add: field_simps)
  finally show ?thesis .
qed

lemma int_le_of_abs_lt:
  fixes m :: int and v :: real
  assumes "\<bar>of_int m - v\<bar> \<le> 1 / 2" "\<bar>v\<bar> < of_int N"
  shows "\<bar>m\<bar> \<le> N"
proof -
  have "\<bar>of_int m :: real\<bar> < of_int N + 1"
    using assms by linarith
  then have "(of_int \<bar>m\<bar> :: real) < of_int (N + 1)"
    by simp
  then have "\<bar>m\<bar> < N + 1"
    by (simp only: of_int_less_iff)
  then show ?thesis by simp
qed

lemma rnd_idem: "rnd (rnd x) = rnd x"
proof (cases "rnd x = 0")
  case True
  then show ?thesis by simp
next
  case False
  then have x0: "x \<noteq> 0" by auto
  define e where "e = max \<lfloor>log 2 \<bar>x\<bar>\<rfloor> (- 1022)"
  define m where "m = round_even (x / ulp x)"
  define y where "y = rnd x"
  have u: "ulp x = 2 powr of_int (e - 52)"
    by (simp add: ulp_def e_def)
  have y: "y = of_int m * ulp x"
    using x0 by (simp add: y_def rnd_def m_def)
  have y0: "y \<noteq> 0" using False by (simp add: y_def)
  have e_ge: "- 1022 \<le> e" by (simp add: e_def)
  have "\<bar>x\<bar> < 2 powr of_int (\<lfloor>log 2 \<bar>x\<bar>\<rfloor> + 1)"
    by (rule two_powr_floor_log(2)[OF x0])
  also have "\<dots> \<le> 2 powr of_int (e + 1)"
    by (simp add: e_def)
  finally have xlt: "\<bar>x\<bar> < 2 powr of_int (e + 1)" .
  have split: "(2::real) powr of_int (e + 1) = 2 ^ 53 * 2 powr of_int (e - 52)"
  proof -
    have "(2::real) powr of_int (e + 1) = 2 powr (53 + of_int (e - 52))"
      by (rule arg_cong[where f = "\<lambda>t. 2 powr t"]) simp
    also have "\<dots> = 2 powr 53 * 2 powr of_int (e - 52)" by (rule powr_add)
    finally show ?thesis by simp
  qed
  have "\<bar>x / ulp x\<bar> = \<bar>x\<bar> / ulp x"
    by (simp add: less_imp_le)
  also have "\<dots> < 2 ^ 53"
    using xlt unfolding split u by (simp add: field_simps)
  finally have vlt: "\<bar>x / ulp x\<bar> < of_int (2 ^ 53)" by simp
  have mle: "\<bar>m\<bar> \<le> 2 ^ 53"
    unfolding m_def using round_even_err[of "x / ulp x"] vlt by (rule int_le_of_abs_lt)
  have yabs: "\<bar>y\<bar> = of_int \<bar>m\<bar> * ulp x"
    by (simp add: y abs_mult less_imp_le)
  have "of_int \<bar>m\<bar> * ulp x \<le> of_int (2 ^ 53) * ulp x"
    using mle by (intro mult_right_mono) (simp_all add: less_imp_le)
  then have yle: "\<bar>y\<bar> \<le> 2 powr of_int (e + 1)"
    unfolding split yabs u by simp
  define ey where "ey = max \<lfloor>log 2 \<bar>y\<bar>\<rfloor> (- 1022)"
  have uy: "ulp y = 2 powr of_int (ey - 52)"
    by (simp add: ulp_def ey_def)
  have fl_le: "\<lfloor>log 2 \<bar>y\<bar>\<rfloor> \<le> e + 1"
  proof -
    have "(2::real) powr of_int \<lfloor>log 2 \<bar>y\<bar>\<rfloor> \<le> 2 powr of_int (e + 1)"
      using two_powr_floor_log(1)[OF y0] yle by linarith
    then have "(of_int \<lfloor>log 2 \<bar>y\<bar>\<rfloor> :: real) \<le> of_int (e + 1)"
      by (simp only: powr_le_cancel_iff rel_simps)
    then show ?thesis by (simp only: of_int_le_iff)
  qed
  have "\<exists>n. y / ulp y = of_int n"
  proof (cases "\<lfloor>log 2 \<bar>y\<bar>\<rfloor> = e + 1")
    case True
    then have eyv: "ey = e + 1"
      using e_ge by (simp add: ey_def)
    define P where "P = (2::real) powr of_int (e + 1)"
    have Ppos: "0 < P"
      by (simp add: P_def)
    have "P \<le> \<bar>y\<bar>"
      unfolding P_def using two_powr_floor_log(1)[OF y0] True by simp
    with yle have yP: "\<bar>y\<bar> = P"
      unfolding P_def by linarith
    have "ulp y = 2 powr (of_int (e + 1) - 52)"
      unfolding uy eyv by simp
    also have "\<dots> = P / 2 powr 52"
      unfolding P_def by (rule powr_diff)
    finally have "P = 2 ^ 52 * ulp y"
      by simp
    then have "P / ulp y = 2 ^ 52"
      by (simp only: nonzero_mult_div_cancel_right[OF ulp_neq0])
    with yP have "\<bar>y\<bar> / ulp y = 2 ^ 52"
      by simp
    then have "\<bar>y / ulp y\<bar> = of_int (2 ^ 52)"
      by (simp add: less_imp_le)
    then have "y / ulp y = of_int (2 ^ 52) \<or> y / ulp y = of_int (- (2 ^ 52))"
      by (simp only: of_int_minus) linarith
    then show ?thesis by blast
  next
    case False
    with fl_le have "\<lfloor>log 2 \<bar>y\<bar>\<rfloor> \<le> e" by simp
    then have "ey \<le> e" using e_ge by (simp add: ey_def)
    then obtain d where d: "e - 52 = ey - 52 + int d"
      by (metis add.commute diff_add_cancel diff_right_mono zero_le_imp_eq_int diff_ge_0_iff_ge add_diff_cancel_left')
    have "ulp x = 2 powr (of_int (ey - 52) + real d)"
      unfolding u d by simp
    also have "\<dots> = ulp y * 2 ^ d"
      unfolding uy by (simp add: powr_add powr_realpow)
    finally have ux: "ulp x = ulp y * 2 ^ d" .
    have "y / ulp y = (of_int m * ulp x) / ulp y"
      using y by (rule arg_cong[where f = "\<lambda>t. t / ulp y"])
    also have "\<dots> = (of_int m * (ulp y * 2 ^ d)) / ulp y"
      by (simp only: ux)
    also have "\<dots> = of_int m * 2 ^ d"
      by simp
    also have "\<dots> = of_int (m * 2 ^ d)" by simp
    finally show ?thesis by blast
  qed
  then obtain n where "y / ulp y = of_int n" by blast
  then have "rnd y = y" by (rule rnd_exact)
  then show ?thesis by (simp add: y_def)
qed

lemma rnd_eval_small:
  fixes n :: nat
  assumes "2 ^ 52 / 2 ^ n \<le> \<bar>x\<bar>" "\<bar>x\<bar> < 2 ^ 53 / 2 ^ n" "n \<le> 1074"
  shows "rnd x = of_int (round_even (x * 2 ^ n)) / 2 ^ n"
proof -
  have u: "(2::real) powr of_int (52 - int n - 52) = 1 / 2 ^ n"
    using two_powr_neg[of n] by simp
  have a: "(2::real) powr of_int (52 - int n) = 2 ^ 52 / 2 ^ n"
  proof -
    have "(2::real) powr of_int (52 - int n) = 2 powr (52 - real n)"
      by simp
    also have "\<dots> = 2 powr 52 / 2 powr real n"
      by (rule powr_diff)
    finally show ?thesis
      by (simp add: powr_realpow)
  qed
  have b: "(2::real) powr of_int (52 - int n + 1) = 2 ^ 53 / 2 ^ n"
  proof -
    have "(2::real) powr of_int (52 - int n + 1) = 2 powr (53 - real n)"
      by (rule arg_cong[where f = "\<lambda>t. 2 powr t"]) simp
    also have "\<dots> = 2 powr 53 / 2 powr real n"
      by (rule powr_diff)
    finally show ?thesis
      by (simp add: powr_realpow)
  qed
  have "\<lfloor>log 2 \<bar>x\<bar>\<rfloor> = 52 - int n"
    using assms(1,2) unfolding a[symmetric] b[symmetric] by (rule floor_log2_eq)
  moreover have "- 1022 \<le> 52 - int n"
    using assms(3) by simp
  ultimately have "ulp x = 1 / 2 ^ n"
    unfolding ulp_def using u by (simp add: max_absorb1)
  moreover have "x \<noteq> 0"
  proof
    assume "x = 0"
    moreover have "(0::real) < 2 ^ n"
      by simp
    ultimately show False
      using assms(1) by (simp add: not_le[symmetric])
  qed
  ultimately show ?thesis
    by (simp add: rnd_def)
qed

lemma rnd_eval_large:
  fixes n :: nat
  assumes "2 ^ 52 * 2 ^ n \<le> \<bar>x\<bar>" "\<bar>x\<bar> < 2 ^ 53 * 2 ^ n"
  shows "rnd x = of_int (round_even (x / 2 ^ n)) * 2 ^ n"
proof -
  have u: "(2::real) powr of_int (52 + int n - 52) = 2 ^ n"
    by (simp add: powr_realpow)
  have a: "(2::real) powr of_int (52 + int n) = 2 ^ 52 * 2 ^ n"
  proof -
    have "(2::real) powr of_int (52 + int n) = 2 powr (52 + real n)"
      by simp
    also have "\<dots> = 2 powr 52 * 2 powr real n"
      by (rule powr_add)
    finally show ?thesis
      by (simp add: powr_realpow)
  qed
  have b: "(2::real) powr of_int (52 + int n + 1) = 2 ^ 53 * 2 ^ n"
  proof -
    have "(2::real) powr of_int (52 + int n + 1) = 2 powr (53 + real n)"
      by (rule arg_cong[where f = "\<lambda>t. 2 powr t"]) simp
    also have "\<dots> = 2 powr 53 * 2 powr real n"
      by (rule powr_add)
    finally show ?thesis
      by (simp add: powr_realpow)
  qed
  have "\<lfloor>log 2 \<bar>x\<bar>\<rfloor> = 52 + int n"
    using assms(1,2) unfolding a[symmetric] b[symmetric] by (rule floor_log2_eq)
  then have "ulp x = 2 ^ n"
    unfolding ulp_def using u by (simp add: max_absorb1)
  moreover have "x \<noteq> 0"
  proof
    assume "x = 0"
    moreover have "(0::real) < 2 ^ n"
      by simp
    ultimately show False
      using assms(1) by (simp add: not_le[symmetric])
  qed
  ultimately show ?thesis
    by (simp add: rnd_def)
qed

lemma rnd_values:
  "rnd 1 = 1" "rnd (- 1) = - 1" "rnd 2 = 2" "rnd (- 2) = - 2" "rnd (1 / 2) = 1 / 2"
  "rnd 9007199254740992 = 9007199254740992"
  "rnd 9007199254740994 = 9007199254740994"
  "rnd (- 9007199254740993) = - 9007199254740992"
  "rnd (1 / 1152921504606846976) = 1 / 1152921504606846976"
  "rnd (1152921504606846977 / 1152921504606846976) = 1"
proof -
  show "rnd 1 = 1"
    by (subst rnd_eval_small[where n = 52]) (simp_all add: round_even_def)
  show "rnd (- 1) = - 1"
    by (subst rnd_eval_small[where n = 52]) (simp_all add: round_even_def)
  show "rnd 2 = 2"
    by (subst rnd_eval_small[where n = 51]) (simp_all add: round_even_def)
  show "rnd (- 2) = - 2"
    by (subst rnd_eval_small[where n = 51]) (simp_all add: round_even_def)
  show "rnd (1 / 2) = 1 / 2"
    by (subst rnd_eval_small[where n = 53]) (simp_all add: round_even_def)
  show "rnd 9007199254740992 = 9007199254740992"
    by (subst rnd_eval_large[where n = 1]) (simp_all add: round_even_def)
  show "rnd 9007199254740994 = 9007199254740994"
    by (subst rnd_eval_large[where n = 1]) (simp_all add: round_even_def)
  show "rnd (- 9007199254740993) = - 9007199254740992"
    by (subst rnd_eval_large[where n = 1]) (simp_all add: round_even_def)
  show "rnd (1 / 1152921504606846976) = 1 / 1152921504606846976"
    by (subst rnd_eval_small[where n = 112]) (simp_all add: round_even_def)
  show "rnd (1152921504606846977 / 1152921504606846976) = 1"
    by (subst rnd_eval_small[where n = 52]) (simp_all add: round_even_def)
qed

lemma fl_Fin_eq:
  assumes "fl (Fin x) = Fin r"
  shows "r = rnd x"
  using assms by (simp add: Let_def split: if_splits)

lemma fl_Fin_small:
  assumes "\<bar>rnd x\<bar> < 2 ^ 1024"
  shows "fl (Fin x) = Fin (rnd x)"
  using assms by (simp add: Let_def)

lemma fl_values:
  "fl (Fin 0) = Fin 0" "fl (Fin 1) = Fin 1" "fl (Fin (- 1)) = Fin (- 1)" "fl (Fin 2) = Fin 2"
  "fl (Fin (- 2)) = Fin (- 2)" "fl (Fin (1 / 2)) = Fin (1 / 2)"
  "fl (Fin 9007199254740992) = Fin 9007199254740992"
  "fl (Fin 9007199254740994) = Fin 9007199254740994"
  "fl (Fin (- 9007199254740993)) = Fin (- 9007199254740992)"
  "fl (Fin (1 / 1152921504606846976)) = Fin (1 / 1152921504606846976)"
  "fl (Fin (1152921504606846977 / 1152921504606846976)) = Fin 1"
  by (simp_all add: Let_def rnd_values)

lemma round_even_above:
  assumes "0 \<le> d" "d < 1 / 2"
  shows "round_even (of_int m + d) = m"
proof -
  have "\<lfloor>of_int m + d\<rfloor> = m"
    using assms by linarith
  then show ?thesis
    using assms by (simp add: round_even_def Let_def)
qed

text \<open>A double in the top binade plus one rounds back to itself.\<close>

lemma rnd_top_binade:
  assumes "2 ^ 1023 \<le> x" "x < 2 ^ 1024" "rnd x = x"
  shows "rnd (1 + x) = x" and "x \<le> 2 ^ 1024 - 2 ^ 971"
proof -
  define U where "U = (2::real) ^ 971"
  define m where "m = round_even (x / U)"
  have U: "2 < U"
    by (simp add: U_def)
  have lo: "(2::real) ^ 1023 = 2 ^ 52 * U" and hi: "(2::real) ^ 1024 = 2 ^ 53 * U"
    by (simp_all add: U_def)
  have xpos: "\<bar>x\<bar> = x"
    using assms(1) by simp
  have "rnd x = of_int (round_even (x / 2 ^ 971)) * 2 ^ 971"
    using assms(1,2) by (intro rnd_eval_large) (simp_all add: xpos)
  then have x: "x = of_int m * U"
    using assms(3) by (simp add: m_def U_def)
  have "of_int m * U < 2 ^ 53 * U"
    using assms(2) unfolding hi x .
  then have "(of_int m :: real) < 2 ^ 53"
    using U by (simp only: mult_less_cancel_right)
  then have "(of_int m :: real) < of_int (2 ^ 53)"
    by simp
  then have "m < 2 ^ 53"
    by (simp only: of_int_less_iff)
  then have "m \<le> 2 ^ 53 - 1"
    by simp
  then have "(of_int m :: real) \<le> of_int (2 ^ 53 - 1)"
    by (simp only: of_int_le_iff)
  then have mle: "(of_int m :: real) \<le> 2 ^ 53 - 1"
    by simp
  have "of_int m * U \<le> (2 ^ 53 - 1) * U"
    using mle U by (intro mult_right_mono) simp_all
  then show xle: "x \<le> 2 ^ 1024 - 2 ^ 971"
    unfolding x hi by (simp add: U_def algebra_simps)
  have b1: "2 ^ 52 * 2 ^ 971 \<le> \<bar>1 + x\<bar>"
    using assms(1) by simp
  have b2: "\<bar>1 + x\<bar> < 2 ^ 53 * 2 ^ 971"
    using xle assms(1) by simp
  have "rnd (1 + x) = of_int (round_even ((1 + x) / 2 ^ 971)) * 2 ^ 971"
    using b1 b2 by (rule rnd_eval_large)
  also have "(1 + x) / 2 ^ 971 = of_int m + 1 / U"
    unfolding x U_def by (simp add: field_simps)
  also have "round_even (of_int m + 1 / U) = m"
    using U by (intro round_even_above) (simp_all add: field_simps)
  finally show "rnd (1 + x) = x"
    by (simp add: x U_def)
qed

section \<open>Payment and future value\<close>

lemma PMT_ordinary:
  assumes "rate \<noteq> 0" "0 < 1 + rate" "0 < periods"
  shows "PMT (Fin rate) (Fin periods) (Fin pv) (Some (Fin 0)) (Some (Fin 0)) =
           Fin (- (pv * rate / (1 - 1 / (1 + rate) powr periods)))"
proof -
  have "(1 + rate) powr periods \<noteq> 1"
    using assms by (intro powr_ne_one) auto
  moreover have "(1 + rate) powr periods \<noteq> 0"
    using assms by simp
  ultimately show ?thesis
    using assms by (simp add: PMT_def Let_def)
qed

text \<open>
  C1. For a finite rate with \<open>rate \<noteq> 0\<close> and \<open>1 + rate > 0\<close>, finite \<open>periods > 0\<close> and any
  finite present value \<open>pv\<close>, the payment that \<^verbatim>\<open>PMT\<close> computes for a target future value
  of 0 (ordinary annuity) amortises \<open>pv\<close> fully: \<^verbatim>\<open>FV\<close> of that payment stream and \<open>pv\<close> is
  exactly 0.
\<close>

theorem FV_PMT_amortizes:
  assumes "rate \<noteq> 0" "0 < 1 + rate" "0 < periods"
  shows "FV (Fin rate) (Fin periods)
           (PMT (Fin rate) (Fin periods) (Fin pv) (Some (Fin 0)) (Some (Fin 0)))
           (Fin pv) (Some (Fin 0)) = Fin 0"
proof -
  have t1: "(1 + rate) powr periods \<noteq> 1"
    using assms by (intro powr_ne_one) auto
  have t0: "(1 + rate) powr periods \<noteq> 0"
    using assms by simp
  show ?thesis
    unfolding PMT_ordinary[OF assms] using assms t1 t0
    by (simp add: FV_def Let_def field_simps)
qed

theorem FV_PMT_amortizes_witness:
  "FV (Fin (1 / 10)) (Fin 5)
     (PMT (Fin (1 / 10)) (Fin 5) (Fin 1000) (Some (Fin 0)) (Some (Fin 0)))
     (Fin 1000) (Some (Fin 0)) = Fin 0"
  using FV_PMT_amortizes [of "1 / 10" 5 1000] by simp

text \<open>
  C6. For a finite rate with \<open>rate > -1\<close>, finite periods, payment and future value, and
  \<open>type\<close> 0 or 1, \<^verbatim>\<open>FV\<close> applied to the present value that \<^verbatim>\<open>PV\<close> returns gives the future
  value back exactly; the branch \<open>rate = 0\<close> is included.
\<close>

theorem FV_inverts_PV:
  assumes "- 1 < rate" "ty = 0 \<or> ty = 1"
  shows "FV (Fin rate) (Fin periods) (Fin payment)
           (PV (Fin rate) (Fin periods) (Fin payment) (Fin future) (Some (Fin ty)))
           (Some (Fin ty)) = Fin future"
proof (cases "rate = 0")
  case True
  then show ?thesis
    by (simp add: FV_def PV_def Let_def)
next
  case False
  have pos: "0 < 1 + rate"
    using assms by simp
  have t0: "(1 + rate) powr periods \<noteq> 0"
    using pos by simp
  have pv: "PV (Fin rate) (Fin periods) (Fin payment) (Fin future) (Some (Fin ty)) =
      Fin ((((1 - (1 + rate) powr periods) / rate) * payment * (1 + rate * ty) - future)
             / (1 + rate) powr periods)"
    using False pos t0 by (simp add: PV_def Let_def)
  show ?thesis
    unfolding pv using False pos t0 assms(2)
    by (auto simp add: FV_def Let_def field_simps)
qed

theorem FV_inverts_PV_witness:
  "FV (Fin (1 / 20)) (Fin 12) (Fin (- 50))
     (PV (Fin (1 / 20)) (Fin 12) (Fin (- 50)) (Fin 300) (Some (Fin 1)))
     (Some (Fin 1)) = Fin 300
   \<and> FV (Fin 0) (Fin 12) (Fin (- 50))
     (PV (Fin 0) (Fin 12) (Fin (- 50)) (Fin 300) (Some (Fin 0)))
     (Some (Fin 0)) = Fin 300"
  using FV_inverts_PV [of "1 / 20" 1 12 "- 50" 300] FV_inverts_PV [of 0 0 12 "- 50" 300]
  by simp

section \<open>Rate conversion\<close>

text \<open>
  C10, as the code has it. For every finite double \<open>rate > 0\<close> and every finite \<open>periods\<close>
  with \<open>1 \<le> periods < 2\<close>: the test \<^verbatim>\<open>periods<1\<close> reads the value that is not yet
  truncated, \<^verbatim>\<open>parseInt\<close> then gives 1, and \<^verbatim>\<open>EFFECT\<close> returns \<^verbatim>\<open>Math.pow(1+rate/1,1)-1\<close>,
  that is \<open>(1 + rate) - 1\<close> with the sum and the difference each rounded to a double. The
  result is within \<open>(1 + rate) / 2\<^sup>5\<^sup>1\<close> of \<open>rate\<close>.
\<close>

theorem EFFECT_one_period_rounding:
  assumes "0 < rate" "rnd rate = rate" "rate < 2 ^ 1024" "1 \<le> periods" "periods < 2"
  shows "EFFECT_dbl (Fin rate) (Fin periods) = Inr (Fin (rnd (rnd (1 + rate) - 1)))
       \<and> \<bar>rnd (rnd (1 + rate) - 1) - rate\<bar> \<le> (1 + rate) / 2 ^ 51"
proof -
  define a where "a = rnd (1 + rate)"
  define r where "r = rnd (a - 1)"
  define X Y Z M where "X = (1 + rate) / 2 ^ 53" and "Y = (1::real) / 2 ^ 1075"
    and "Z = \<bar>a - 1\<bar> / 2 ^ 53" and "M = (2::real) ^ 1023"
  have fl1: "\<lfloor>periods\<rfloor> = 1"
    using assms by linarith
  have "\<bar>periods\<bar> = periods" "periods \<noteq> 0" "\<not> periods < 1 / 10 ^ 6"
       "\<not> 10 ^ 21 \<le> periods" "sgn periods = 1"
    using assms by auto
  then have pi: "parseInt10 (Fin periods) = Fin 1"
    using fl1 by (simp add: Let_def)
  have Y: "0 \<le> Y" "Y \<le> 1 / 4"
    by (simp_all add: Y_def)
  have "Y \<le> 1 / 2 ^ 54"
    by (simp add: Y_def)
  also have "\<dots> \<le> (1 + rate) / 2 ^ 54"
    using assms(1) by (intro divide_right_mono) simp_all
  also have "\<dots> = X / 2"
    by (simp add: X_def)
  finally have YX: "Y \<le> X / 2" .
  have X: "0 \<le> X" "X \<le> (1 + rate) / 16"
    unfolding X_def using assms(1) by (simp, intro divide_left_mono) simp_all
  have M: "2 < M"
    by (simp add: M_def)
  have M2: "2 * M = 2 ^ 1024"
    by (simp add: M_def)
  have ea: "\<bar>a - (1 + rate)\<bar> \<le> X + Y"
    using rnd_err[of "1 + rate"] assms(1) by (simp add: a_def X_def Y_def)
  have a_lo: "1 / 2 \<le> a"
    using ea X Y assms(1) by argo
  have a_abs: "\<bar>a - 1\<bar> \<le> 2 * (1 + rate)"
    using ea X Y assms(1) by argo
  have Z: "0 \<le> Z" "Z \<le> 2 * X" "Z \<le> \<bar>a - 1\<bar> / 16"
  proof -
    show "0 \<le> Z" by (simp add: Z_def)
    have "Z \<le> (2 * (1 + rate)) / 2 ^ 53"
      unfolding Z_def using a_abs by (intro divide_right_mono) simp_all
    then show "Z \<le> 2 * X" by (simp add: X_def)
    show "Z \<le> \<bar>a - 1\<bar> / 16"
      unfolding Z_def by (intro divide_left_mono) simp_all
  qed
  have er: "\<bar>r - (a - 1)\<bar> \<le> Z + Y"
    using rnd_err[of "a - 1"] by (simp add: r_def Z_def Y_def)
  have big: "a < 2 * M \<and> \<bar>r\<bar> < 2 * M"
  proof (cases "rate < M")
    case True
    have "a < 2 * M"
      using ea X Y M True assms(1) by argo
    moreover have "\<bar>r\<bar> < 2 * M"
      using er ea X Z Y M True assms(1) by argo
    ultimately show ?thesis ..
  next
    case False
    then have ge: "2 ^ 1023 \<le> rate"
      by (simp add: M_def)
    have ar: "a = rate"
      unfolding a_def using ge assms(3,2) by (rule rnd_top_binade(1))
    have "rate \<le> 2 ^ 1024 - 2 ^ 971"
      using ge assms(3,2) by (rule rnd_top_binade(2))
    also have "\<dots> = 2 * M - 2 * (M / 2 ^ 53)"
      by (simp add: M_def)
    finally have rle: "rate \<le> 2 * M - 2 * (M / 2 ^ 53)" .
    have "Z = (rate - 1) / 2 ^ 53"
      using ge by (simp add: Z_def ar)
    also have "\<dots> \<le> (2 * M - 2 * (M / 2 ^ 53) - 1) / 2 ^ 53"
      using rle by (intro divide_right_mono) simp_all
    also have "\<dots> \<le> 2 * (M / 2 ^ 53) - 1 / 2 ^ 53"
      by (simp add: M_def)
    finally have Zle: "Z \<le> 2 * (M / 2 ^ 53) - 1 / 2 ^ 53" .
    have "Y \<le> 1 / 2 ^ 53"
      by (simp add: Y_def)
    then have "\<bar>r\<bar> < 2 * M"
      using er Zle rle ar ge M by (simp add: M_def abs_le_iff abs_less_iff)
    moreover have "a < 2 * M"
      using ar assms(3) M2 by simp
    ultimately show ?thesis by simp
  qed
  then have a_big: "a < 2 * M" and r_big: "\<bar>r\<bar> < 2 * M"
    by simp_all
  have s1: "fl (Fin rate) = Fin rate"
    using assms(1,2,3) by (simp add: Let_def)
  have s2: "fl (Fin (1 + rate)) = Fin a"
    unfolding a_def using a_lo a_big M2 by (intro fl_Fin_small) (simp add: a_def)
  have "fl (Fin a) = Fin (rnd a)"
    using a_lo a_big M2 rnd_idem[of "1 + rate"] by (intro fl_Fin_small) (simp add: a_def)
  then have s3: "fl (Fin a) = Fin a"
    using rnd_idem[of "1 + rate"] by (simp add: a_def)
  have s4: "fl (Fin (a - 1)) = Fin r"
    unfolding r_def using r_big M2 by (intro fl_Fin_small) (simp add: r_def)
  have pw: "Math_pow (Fin a) (Fin 1) = Fin a"
    using a_lo by simp
  have eff: "EFFECT_dbl (Fin rate) (Fin periods) = Inr (Fin r)"
    using assms(1,4)
    by (simp add: EFFECT_dbl_def Let_def pi s1 s2 pw s3 s4
        del: fl.simps parseInt10.simps Math_pow.simps)
  have "\<bar>r - rate\<bar> \<le> 4 * X"
    using er ea Z X Y YX by argo
  also have "\<dots> = (1 + rate) / 2 ^ 51"
    by (simp add: X_def)
  finally show ?thesis
    using eff by (simp add: r_def a_def)
qed

theorem EFFECT_one_period_rounding_witness:
  "EFFECT_dbl (Fin 1) (Fin (3 / 2)) = Inr (Fin 1)"
  using EFFECT_one_period_rounding [of 1 "3 / 2"] by (simp add: rnd_values)

text \<open>
  The claim C10 as stated asks for exactly \<open>rate\<close>. \<^verbatim>\<open>EFFECT(2^-60, 1)\<close>: the rate is a
  double, \<open>1 + 2\<^sup>-\<^sup>6\<^sup>0\<close> rounds to 1, and the result is 0.
\<close>

theorem EFFECT_one_period_rounds_to_zero:
  "fl (Fin (1 / 2 ^ 60)) = Fin (1 / 2 ^ 60)
   \<and> EFFECT_dbl (Fin (1 / 2 ^ 60)) (Fin 1) = Inr (Fin 0)
   \<and> EFFECT_dbl (Fin (1 / 2 ^ 60)) (Fin 1) \<noteq> Inr (Fin (1 / 2 ^ 60))"
  by (simp add: EFFECT_dbl_def Let_def fl_values del: fl.simps(1))

text \<open>
  C8. For every finite effective rate \<open>e > 0\<close> and every integer \<open>k \<ge> 1\<close>, \<^verbatim>\<open>NOMINAL(e, k)\<close>
  returns a number, and \<^verbatim>\<open>EFFECT\<close> of that number and \<open>k\<close> returns exactly \<open>e\<close>.
\<close>

theorem EFFECT_NOMINAL_roundtrip:
  fixes e :: real and k :: int
  assumes "0 < e" "1 \<le> k"
  shows "\<exists>n. NOMINAL (Fin e) (Fin (of_int k)) = Inr n
             \<and> EFFECT n (Fin (of_int k)) = Inr (Fin e)"
proof -
  have k1: "(1::real) \<le> of_int k"
    using assms by simp
  obtain p where p: "parseInt10 (Fin (of_int k)) = Fin p" "1 \<le> p"
    using parseInt10_ge1[OF k1] by blast
  define n where "n = ((e + 1) powr (1 / p) - 1) * p"
  have "1 < (e + 1) powr (1 / p)"
    using assms p by (intro gr_one_powr) auto
  then have npos: "0 < n"
    using p by (simp add: n_def)
  have nom: "NOMINAL (Fin e) (Fin (of_int k)) = Inr (Fin n)"
    using assms p by (simp add: NOMINAL_def Let_def n_def)
  have "1 + n / p = (e + 1) powr (1 / p)"
    using p by (simp add: n_def)
  then have "(1 + n / p) powr p = (e + 1) powr ((1 / p) * p)"
    by (simp only: powr_powr)
  also have "\<dots> = e + 1"
    using p assms by simp
  finally have pw: "(1 + n / p) powr p = e + 1" .
  have base: "0 < 1 + n / p"
    using npos p by (simp add: add_pos_pos)
  have "EFFECT (Fin n) (Fin (of_int k)) = Inr (Fin e)"
    using npos assms p base pw by (simp add: EFFECT_def Let_def)
  with nom show ?thesis
    by blast
qed

theorem EFFECT_NOMINAL_roundtrip_witness:
  "\<exists>n. NOMINAL (Fin (1 / 10)) (Fin 12) = Inr n \<and> EFFECT n (Fin 12) = Inr (Fin (1 / 10))"
  using EFFECT_NOMINAL_roundtrip [of "1 / 10" 12] by simp

lemma EFFECT_infinite_argument:
  assumes "\<not> (isNaN rate \<or> isNaN periods \<or> rate \<le> Fin 0 \<or> periods < Fin 1)"
    and "\<not> isFinite rate \<or> \<not> isFinite periods"
  shows "EFFECT rate periods = Inr PInf \<or> EFFECT rate periods = Inr NaN"
proof (cases periods)
  case (Fin p)
  then have r: "rate = PInf"
    using assms by (cases rate) simp_all
  have "1 \<le> p"
    using assms(1) Fin by simp
  then obtain q where q: "parseInt10 (Fin p) = Fin q" "1 \<le> q"
    using parseInt10_ge1 by blast
  then show ?thesis
    using assms(1) unfolding r Fin by (simp add: EFFECT_def Let_def minus_jsnum_def del: parseInt10.simps)
next
  case PInf
  then show ?thesis
    using assms(1) by (cases rate) (simp_all add: EFFECT_def Let_def minus_jsnum_def)
next
  case NInf
  then show ?thesis
    using assms(1) by simp
next
  case NaN
  then show ?thesis
    using assms(1) by simp
qed

lemma NOMINAL_infinite_argument:
  assumes "\<not> (isNaN rate \<or> isNaN periods \<or> rate \<le> Fin 0 \<or> periods < Fin 1)"
    and "\<not> isFinite rate \<or> \<not> isFinite periods"
  shows "NOMINAL rate periods = Inr PInf \<or> NOMINAL rate periods = Inr NaN"
proof (cases periods)
  case (Fin p)
  then have r: "rate = PInf"
    using assms by (cases rate) simp_all
  have "1 \<le> p"
    using assms(1) Fin by simp
  then obtain q where q: "parseInt10 (Fin p) = Fin q" "1 \<le> q"
    using parseInt10_ge1 by blast
  then show ?thesis
    using assms(1) unfolding r Fin by (simp add: NOMINAL_def Let_def minus_jsnum_def del: parseInt10.simps)
next
  case PInf
  then show ?thesis
    using assms(1) by (cases rate) (simp_all add: NOMINAL_def Let_def minus_jsnum_def)
next
  case NInf
  then show ?thesis
    using assms(1) by simp
next
  case NaN
  then show ?thesis
    using assms(1) by simp
qed

text \<open>
  C4, as the code has it. \<^verbatim>\<open>EFFECT\<close> and \<^verbatim>\<open>NOMINAL\<close> return \<^verbatim>\<open>#VALUE!\<close> exactly when an
  argument is \<^verbatim>\<open>NaN\<close>, and \<^verbatim>\<open>#NUM!\<close> exactly when no argument is \<^verbatim>\<open>NaN\<close> and the rate is
  \<open>\<le> 0\<close> or \<open>periods < 1\<close>; every other input gives a number. An infinite argument is not
  \<^verbatim>\<open>NaN\<close>, so it is not rejected for being infinite: when an input that gives a number has
  an infinite argument, the number is \<^verbatim>\<open>Infinity\<close> or \<^verbatim>\<open>NaN\<close>.
\<close>

theorem EFFECT_NOMINAL_error_iff:
  "(EFFECT rate periods = Inl ''#VALUE!'') = (isNaN rate \<or> isNaN periods)
   \<and> (EFFECT rate periods = Inl ''#NUM!'')
       = (\<not> isNaN rate \<and> \<not> isNaN periods \<and> (rate \<le> Fin 0 \<or> periods < Fin 1))
   \<and> (\<exists>v. EFFECT rate periods = Inr v)
       = (\<not> (isNaN rate \<or> isNaN periods \<or> rate \<le> Fin 0 \<or> periods < Fin 1))
   \<and> ((\<exists>v. EFFECT rate periods = Inr v) \<and> (\<not> isFinite rate \<or> \<not> isFinite periods)
       \<longrightarrow> EFFECT rate periods = Inr PInf \<or> EFFECT rate periods = Inr NaN)
   \<and> (NOMINAL rate periods = Inl ''#VALUE!'') = (isNaN rate \<or> isNaN periods)
   \<and> (NOMINAL rate periods = Inl ''#NUM!'')
       = (\<not> isNaN rate \<and> \<not> isNaN periods \<and> (rate \<le> Fin 0 \<or> periods < Fin 1))
   \<and> (\<exists>v. NOMINAL rate periods = Inr v)
       = (\<not> (isNaN rate \<or> isNaN periods \<or> rate \<le> Fin 0 \<or> periods < Fin 1))
   \<and> ((\<exists>v. NOMINAL rate periods = Inr v) \<and> (\<not> isFinite rate \<or> \<not> isFinite periods)
       \<longrightarrow> NOMINAL rate periods = Inr PInf \<or> NOMINAL rate periods = Inr NaN)"
proof -
  have e: "(\<exists>v. EFFECT rate periods = Inr v)
       = (\<not> (isNaN rate \<or> isNaN periods \<or> rate \<le> Fin 0 \<or> periods < Fin 1))"
    by (simp add: EFFECT_def Let_def)
  have n: "(\<exists>v. NOMINAL rate periods = Inr v)
       = (\<not> (isNaN rate \<or> isNaN periods \<or> rate \<le> Fin 0 \<or> periods < Fin 1))"
    by (simp add: NOMINAL_def Let_def)
  have e1: "(EFFECT rate periods = Inl ''#VALUE!'') = (isNaN rate \<or> isNaN periods)"
    and e2: "(EFFECT rate periods = Inl ''#NUM!'')
       = (\<not> isNaN rate \<and> \<not> isNaN periods \<and> (rate \<le> Fin 0 \<or> periods < Fin 1))"
    by (auto simp add: EFFECT_def Let_def)
  have n1: "(NOMINAL rate periods = Inl ''#VALUE!'') = (isNaN rate \<or> isNaN periods)"
    and n2: "(NOMINAL rate periods = Inl ''#NUM!'')
       = (\<not> isNaN rate \<and> \<not> isNaN periods \<and> (rate \<le> Fin 0 \<or> periods < Fin 1))"
    by (auto simp add: NOMINAL_def Let_def)
  show ?thesis
    unfolding e n e1 e2 n1 n2
    using EFFECT_infinite_argument[of rate periods] NOMINAL_infinite_argument[of rate periods]
    by blast
qed

theorem EFFECT_NOMINAL_error_iff_witness:
  "EFFECT (Fin (1 / 20)) (Fin (1 / 2)) = Inl ''#NUM!'' \<and> EFFECT NaN (Fin 12) = Inl ''#VALUE!''
   \<and> NOMINAL (Fin 0) (Fin 12) = Inl ''#NUM!'' \<and> NOMINAL (Fin (1 / 20)) NaN = Inl ''#VALUE!''
   \<and> (\<exists>v. EFFECT PInf (Fin 12) = Inr v) \<and> \<not> isFinite PInf
   \<and> (EFFECT PInf (Fin 12) = Inr PInf \<or> EFFECT PInf (Fin 12) = Inr NaN)"
proof -
  note t1 = EFFECT_NOMINAL_error_iff [of "Fin (1 / 20)" "Fin (1 / 2)"]
  note t2 = EFFECT_NOMINAL_error_iff [of NaN "Fin 12"]
  note t3 = EFFECT_NOMINAL_error_iff [of "Fin 0" "Fin 12"]
  note t4 = EFFECT_NOMINAL_error_iff [of "Fin (1 / 20)" NaN]
  note t5 = EFFECT_NOMINAL_error_iff [of PInf "Fin 12"]
  have a: "EFFECT (Fin (1 / 20)) (Fin (1 / 2)) = Inl ''#NUM!''"
    using t1 by simp
  have b: "EFFECT NaN (Fin 12) = Inl ''#VALUE!''"
    using t2 by simp
  have c: "NOMINAL (Fin 0) (Fin 12) = Inl ''#NUM!''"
    using t3 by simp
  have d: "NOMINAL (Fin (1 / 20)) NaN = Inl ''#VALUE!''"
    using t4 by simp
  have v: "\<not> (isNaN PInf \<or> isNaN (Fin 12) \<or> PInf \<le> Fin 0 \<or> Fin 12 < Fin 1)"
    by simp
  have e: "\<exists>v. EFFECT PInf (Fin 12) = Inr v"
    using t5 v by blast
  have f: "\<not> isFinite PInf"
    by simp
  have g: "EFFECT PInf (Fin 12) = Inr PInf \<or> EFFECT PInf (Fin 12) = Inr NaN"
    using t5 e f by blast
  show ?thesis
    using a b c d e f g by blast
qed

text \<open>
  The claim C4 as the specification states it asks for an error whenever an argument is
  not finite. \<^verbatim>\<open>EFFECT(Infinity, 12)\<close> and \<^verbatim>\<open>NOMINAL(Infinity, 12)\<close> return the number
  \<^verbatim>\<open>Infinity\<close>.
\<close>

theorem EFFECT_NOMINAL_accept_infinity:
  "\<not> isFinite PInf \<and> EFFECT PInf (Fin 12) = Inr PInf \<and> NOMINAL PInf (Fin 12) = Inr PInf"
  by (simp add: EFFECT_def NOMINAL_def Let_def minus_jsnum_def)

section \<open>Principal and interest\<close>

text \<open>
  On the inputs a loan has (a finite rate above \<open>-1\<close>, a positive finite number of
  periods, finite amounts) \<^verbatim>\<open>PMT\<close>, \<^verbatim>\<open>FV\<close> and \<^verbatim>\<open>IPMT\<close> return finite numbers.
\<close>

lemma PMT_finite:
  assumes "- 1 < rate" "0 < periods"
    and "undefined_or (Fin 0) future = Fin fu" "undefined_or (Fin 0) type = Fin ty"
  shows "isFinite (PMT (Fin rate) (Fin periods) (Fin present) future type)"
proof (cases "rate = 0")
  case True
  then show ?thesis
    using assms by (simp add: PMT_def Let_def)
next
  case False
  have "(1 + rate) powr periods \<noteq> 1"
    using assms False by (intro powr_ne_one) auto
  moreover have "(1 + rate) powr periods \<noteq> 0"
    using assms by simp
  ultimately show ?thesis
    using assms False by (simp add: PMT_def Let_def)
qed

lemma FV_finite:
  assumes "- 1 < rate" "undefined_or (Fin 0) type = Fin ty"
  shows "isFinite (FV (Fin rate) (Fin n) (Fin payment) (Fin v) type)"
  using assms by (simp add: FV_def Let_def)

lemma isFinite_obtain:
  assumes "isFinite a"
  obtains r where "a = Fin r"
  using assms by (cases a) simp_all

lemma IPMT_finite:
  assumes "- 1 < rate" "0 < periods"
    and "undefined_or (Fin 0) future = Fin fu" "undefined_or (Fin 0) type = Fin ty"
  shows "isFinite (IPMT (Fin rate) (Fin period) (Fin periods) (Fin present) future type)"
proof -
  have "isFinite (PMT (Fin rate) (Fin periods) (Fin present) future (Some (Fin ty)))"
    using assms by (intro PMT_finite[where fu = fu and ty = ty]) simp_all
  then obtain a where a: "PMT (Fin rate) (Fin periods) (Fin present) future (Some (Fin ty)) = Fin a"
    by (rule isFinite_obtain)
  have "isFinite (FV (Fin rate) (Fin (period - 2)) (Fin a) (Fin present) (Some (Fin 1)))"
    using assms(1) by (intro FV_finite[where ty = 1]) simp_all
  then obtain b1 where b1:
    "FV (Fin rate) (Fin (period - 2)) (Fin a) (Fin present) (Some (Fin 1)) = Fin b1"
    by (rule isFinite_obtain)
  have "isFinite (FV (Fin rate) (Fin (period - 1)) (Fin a) (Fin present) (Some (Fin 0)))"
    using assms(1) by (intro FV_finite[where ty = 0]) simp_all
  then obtain b0 where b0:
    "FV (Fin rate) (Fin (period - 1)) (Fin a) (Fin present) (Some (Fin 0)) = Fin b0"
    by (rule isFinite_obtain)
  show ?thesis
    using assms(4) a b0 b1 by (auto simp add: IPMT_def Let_def)
qed

lemma dbl_rounding_example:
  "PMT_dbl (Fin 1) (Fin 1) (Fin 1) (Some (Fin (2 ^ 53))) None = Fin (- (2 ^ 53 + 2))"
  "IPMT_dbl (Fin 1) (Fin 1) (Fin 1) (Fin 1) (Some (Fin (2 ^ 53))) None = Fin (- 1)"
  "PPMT_dbl (Fin 1) (Fin 1) (Fin 1) (Fin 1) (Some (Fin (2 ^ 53))) None = Fin (- (2 ^ 53))"
  "fl (PPMT_dbl (Fin 1) (Fin 1) (Fin 1) (Fin 1) (Some (Fin (2 ^ 53))) None
       + IPMT_dbl (Fin 1) (Fin 1) (Fin 1) (Fin 1) (Some (Fin (2 ^ 53))) None) = Fin (- (2 ^ 53))"
proof -
  show p: "PMT_dbl (Fin 1) (Fin 1) (Fin 1) (Some (Fin (2 ^ 53))) None = Fin (- (2 ^ 53 + 2))"
    by (simp add: PMT_dbl_def Let_def fl_values del: fl.simps(1))
  show i: "IPMT_dbl (Fin 1) (Fin 1) (Fin 1) (Fin 1) (Some (Fin (2 ^ 53))) None = Fin (- 1)"
    by (simp add: IPMT_dbl_def Let_def fl_values del: fl.simps(1))
  show pp: "PPMT_dbl (Fin 1) (Fin 1) (Fin 1) (Fin 1) (Some (Fin (2 ^ 53))) None = Fin (- (2 ^ 53))"
    unfolding PPMT_dbl_def p i by (simp add: fl_values del: fl.simps(1))
  show "fl (PPMT_dbl (Fin 1) (Fin 1) (Fin 1) (Fin 1) (Some (Fin (2 ^ 53))) None
       + IPMT_dbl (Fin 1) (Fin 1) (Fin 1) (Fin 1) (Some (Fin (2 ^ 53))) None) = Fin (- (2 ^ 53))"
    unfolding pp i by (simp add: fl_values del: fl.simps(1))
qed

lemma dbl_infinite_example:
  "PMT_dbl (Fin (- 2)) (Fin 2) (Fin 1) (Some (Fin 1)) (Some (Fin 0)) = PInf"
  "IPMT_dbl (Fin (- 2)) (Fin 2) (Fin 2) (Fin 1) (Some (Fin 1)) (Some (Fin 0)) = PInf"
  "PPMT_dbl (Fin (- 2)) (Fin 2) (Fin 2) (Fin 1) (Some (Fin 1)) (Some (Fin 0)) = NaN"
proof -
  show p: "PMT_dbl (Fin (- 2)) (Fin 2) (Fin 1) (Some (Fin 1)) (Some (Fin 0)) = PInf"
    by (simp add: PMT_dbl_def Let_def fl_values is_odd_int_def is_int_def minus_jsnum_def
        del: fl.simps(1))
  show i: "IPMT_dbl (Fin (- 2)) (Fin 2) (Fin 2) (Fin 1) (Some (Fin 1)) (Some (Fin 0)) = PInf"
    by (simp add: IPMT_dbl_def FV_dbl_def p Let_def fl_values is_odd_int_def is_int_def
        minus_jsnum_def del: fl.simps(1))
  show "PPMT_dbl (Fin (- 2)) (Fin 2) (Fin 2) (Fin 1) (Some (Fin 1)) (Some (Fin 0)) = NaN"
    unfolding PPMT_dbl_def p i by (simp add: minus_jsnum_def)
qed

text \<open>
  C9, as the code has it. \<^verbatim>\<open>PPMT\<close> is the difference \<^verbatim>\<open>PMT - IPMT\<close> rounded to a double, and
  the sum \<^verbatim>\<open>PPMT + IPMT\<close> is rounded again. Whenever \<^verbatim>\<open>PMT\<close>, \<^verbatim>\<open>IPMT\<close>, \<^verbatim>\<open>PPMT\<close> and the sum
  are finite, the sum is within \<open>(|PMT - IPMT| + |PPMT + IPMT|) / 2\<^sup>5\<^sup>3 + 2\<^sup>-\<^sup>1\<^sup>0\<^sup>7\<^sup>4\<close> of
  \<^verbatim>\<open>PMT\<close>.
\<close>

theorem PPMT_plus_IPMT_rounding:
  assumes "PMT_dbl rate periods present future type = Fin a"
    and "IPMT_dbl rate period periods present future type = Fin b"
    and "PPMT_dbl rate period periods present future type = Fin p"
    and "fl (PPMT_dbl rate period periods present future type
             + IPMT_dbl rate period periods present future type) = Fin s"
  shows "p = rnd (a - b) \<and> s = rnd (p + b)
       \<and> \<bar>s - a\<bar> \<le> (\<bar>a - b\<bar> + \<bar>p + b\<bar>) / 2 ^ 53 + 1 / 2 ^ 1074"
proof -
  have "fl (Fin (a - b)) = Fin p"
    using assms(3) by (simp add: PPMT_dbl_def assms(1,2) del: fl.simps)
  then have p: "p = rnd (a - b)"
    by (rule fl_Fin_eq)
  have "fl (Fin (p + b)) = Fin s"
    using assms(4) by (simp add: assms(2,3) del: fl.simps)
  then have s: "s = rnd (p + b)"
    by (rule fl_Fin_eq)
  have e1: "\<bar>p - (a - b)\<bar> \<le> \<bar>a - b\<bar> / 2 ^ 53 + 1 / 2 ^ 1075"
    unfolding p by (rule rnd_err)
  have e2: "\<bar>s - (p + b)\<bar> \<le> \<bar>p + b\<bar> / 2 ^ 53 + 1 / 2 ^ 1075"
    unfolding s by (rule rnd_err)
  have "\<bar>s - a\<bar> \<le> \<bar>s - (p + b)\<bar> + \<bar>p - (a - b)\<bar>"
    by linarith
  also have "\<dots> \<le> (\<bar>p + b\<bar> / 2 ^ 53 + 1 / 2 ^ 1075) + (\<bar>a - b\<bar> / 2 ^ 53 + 1 / 2 ^ 1075)"
    using e1 e2 by (rule_tac add_mono)
  also have "\<dots> = (\<bar>a - b\<bar> + \<bar>p + b\<bar>) / 2 ^ 53 + 1 / 2 ^ 1074"
    by (simp add: field_simps)
  finally show ?thesis
    using p s by simp
qed

theorem PPMT_plus_IPMT_rounding_witness:
  "- (2 ^ 53) = rnd (- (2 ^ 53 + 2) - (- 1)) \<and> - (2 ^ 53) = rnd (- (2 ^ 53) + (- 1))
   \<and> \<bar>- (2 ^ 53) - (- (2 ^ 53 + 2))\<bar>
       \<le> (\<bar>- (2 ^ 53 + 2) - (- 1)\<bar> + \<bar>- (2 ^ 53) + (- 1 :: real)\<bar>) / 2 ^ 53 + 1 / 2 ^ 1074"
  by (rule PPMT_plus_IPMT_rounding [OF dbl_rounding_example])

text \<open>
  The claim C9 as stated asks for \<^verbatim>\<open>PPMT + IPMT == PMT\<close> exactly, for every rate. At rate 1
  with 1 period, present value 1, future value \<open>2\<^sup>5\<^sup>3\<close> (a double), period 1: \<^verbatim>\<open>PMT\<close> is
  \<open>-(2\<^sup>5\<^sup>3 + 2)\<close>, \<^verbatim>\<open>IPMT\<close> is \<open>-1\<close>, their difference \<open>-(2\<^sup>5\<^sup>3 + 1)\<close> is not a double and
  rounds to \<open>-2\<^sup>5\<^sup>3\<close>, and so does the sum: all values are finite and the sum is not
  \<^verbatim>\<open>PMT\<close>. At rate \<open>-2\<close> with 2 periods, present and future value 1, period 2:
  \<open>(1 + rate)\<^sup>2 = 1\<close>, both divisors of \<^verbatim>\<open>PMT\<close> are 0, \<^verbatim>\<open>PMT\<close> and \<^verbatim>\<open>IPMT\<close> are \<^verbatim>\<open>Infinity\<close>,
  and the sum is \<^verbatim>\<open>NaN\<close>.
\<close>

theorem PPMT_plus_IPMT_not_exact:
  "fl (Fin (2 ^ 53)) = Fin (2 ^ 53)
   \<and> PMT_dbl (Fin 1) (Fin 1) (Fin 1) (Some (Fin (2 ^ 53))) None = Fin (- (2 ^ 53 + 2))
   \<and> IPMT_dbl (Fin 1) (Fin 1) (Fin 1) (Fin 1) (Some (Fin (2 ^ 53))) None = Fin (- 1)
   \<and> fl (PPMT_dbl (Fin 1) (Fin 1) (Fin 1) (Fin 1) (Some (Fin (2 ^ 53))) None
          + IPMT_dbl (Fin 1) (Fin 1) (Fin 1) (Fin 1) (Some (Fin (2 ^ 53))) None)
       = Fin (- (2 ^ 53))
   \<and> \<not> seq (fl (PPMT_dbl (Fin 1) (Fin 1) (Fin 1) (Fin 1) (Some (Fin (2 ^ 53))) None
                 + IPMT_dbl (Fin 1) (Fin 1) (Fin 1) (Fin 1) (Some (Fin (2 ^ 53))) None))
            (PMT_dbl (Fin 1) (Fin 1) (Fin 1) (Some (Fin (2 ^ 53))) None)
   \<and> PMT_dbl (Fin (- 2)) (Fin 2) (Fin 1) (Some (Fin 1)) (Some (Fin 0)) = PInf
   \<and> fl (PPMT_dbl (Fin (- 2)) (Fin 2) (Fin 2) (Fin 1) (Some (Fin 1)) (Some (Fin 0))
          + IPMT_dbl (Fin (- 2)) (Fin 2) (Fin 2) (Fin 1) (Some (Fin 1)) (Some (Fin 0))) = NaN"
  unfolding dbl_rounding_example dbl_infinite_example
  by (simp add: fl_values del: fl.simps(1))

section \<open>Number of periods\<close>

lemma log_nonpos_div_not_finite:
  assumes "q \<le> Fin 0"
  shows "\<not> isFinite (Math_log q / d)"
proof -
  have "Math_log q = NaN \<or> Math_log q = NInf"
    using assms by (cases q) auto
  then show ?thesis
    by (cases d) (auto split: if_splits)
qed

text \<open>
  C5, as the code has it. With \<open>num\<close> and \<open>den\<close> as \<^verbatim>\<open>NPER\<close> computes them: whenever
  \<open>num/den \<le> 0\<close> the result is not finite. At \<open>rate = -1\<close> the divisor \<^verbatim>\<open>Math.log(1+rate)\<close> is
  \<^verbatim>\<open>-Infinity\<close>, and the result is finite exactly when \<open>num/den\<close> is a positive finite
  number; it is then zero. So at \<open>rate = -1\<close> the result is not finite only when \<open>num/den\<close>
  is \<open>\<le> 0\<close>, infinite or \<^verbatim>\<open>NaN\<close>.
\<close>

theorem NPER_not_finite:
  fixes rate payment present :: jsnum and future type :: "jsnum option"
  defines "q \<equiv> NPER_num rate payment (undefined_or (Fin 0) future) (undefined_or (Fin 0) type)
                 / NPER_den rate payment present (undefined_or (Fin 0) type)"
  shows "(q \<le> Fin 0 \<longrightarrow> \<not> isFinite (NPER rate payment present future type))
       \<and> (seq rate (Fin (- 1)) \<longrightarrow>
            isFinite (NPER rate payment present future type) = (\<exists>v. 0 < v \<and> q = Fin v))
       \<and> (seq rate (Fin (- 1)) \<and> isFinite (NPER rate payment present future type) \<longrightarrow>
            NPER rate payment present future type = Fin 0)"
proof -
  have n: "NPER rate payment present future type = Math_log q / Math_log (Fin 1 + rate)"
    by (simp add: NPER_def Let_def q_def)
  have m: "NPER rate payment present future type = Math_log q / NInf"
    if "seq rate (Fin (- 1))"
  proof -
    have "rate = Fin (- 1)"
      using that by (cases rate) simp_all
    then show ?thesis
      using n by simp
  qed
  have a: "\<not> isFinite (NPER rate payment present future type)" if "q \<le> Fin 0"
    unfolding n using that by (rule log_nonpos_div_not_finite)
  have b: "isFinite (NPER rate payment present future type) = (\<exists>v. 0 < v \<and> q = Fin v)"
    if "seq rate (Fin (- 1))"
    unfolding m[OF that] by (cases q) auto
  have c: "NPER rate payment present future type = Fin 0"
    if "seq rate (Fin (- 1))" "isFinite (NPER rate payment present future type)"
    using that(2) unfolding m[OF that(1)] by (cases q) (auto split: if_splits)
  show ?thesis
    using a b c by blast
qed

theorem NPER_not_finite_witness:
  "NPER_num (Fin (1 / 10)) (Fin (- 50)) (Fin 0) (Fin 0)
     / NPER_den (Fin (1 / 10)) (Fin (- 50)) (Fin 1000) (Fin 0) \<le> Fin 0
   \<and> \<not> isFinite (NPER (Fin (1 / 10)) (Fin (- 50)) (Fin 1000) None None)
   \<and> seq (Fin (- 1)) (Fin (- 1))
   \<and> NPER_num (Fin (- 1)) (Fin 3) (Fin 0) (Fin 0)
       / NPER_den (Fin (- 1)) (Fin 3) (Fin 1) (Fin 0) = Fin (3 / 2)
   \<and> isFinite (NPER (Fin (- 1)) (Fin 3) (Fin 1) None None)
   \<and> NPER (Fin (- 1)) (Fin 3) (Fin 1) None None = Fin 0"
proof -
  have q1: "NPER_num (Fin (1 / 10)) (Fin (- 50)) (Fin 0) (Fin 0)
             / NPER_den (Fin (1 / 10)) (Fin (- 50)) (Fin 1000) (Fin 0) \<le> Fin 0"
    by (simp add: NPER_num_def NPER_den_def)
  have q2: "NPER_num (Fin (- 1)) (Fin 3) (Fin 0) (Fin 0)
             / NPER_den (Fin (- 1)) (Fin 3) (Fin 1) (Fin 0) = Fin (3 / 2)"
    by (simp add: NPER_num_def NPER_den_def)
  note t1 = NPER_not_finite [of "Fin (1 / 10)" "Fin (- 50)" None None "Fin 1000",
      unfolded undefined_or.simps]
  note t2 = NPER_not_finite [of "Fin (- 1)" "Fin 3" None None "Fin 1",
      unfolded undefined_or.simps q2]
  have a: "\<not> isFinite (NPER (Fin (1 / 10)) (Fin (- 50)) (Fin 1000) None None)"
    using t1 q1 by blast
  have s: "seq (Fin (- 1)) (Fin (- 1))"
    by simp
  have ex: "\<exists>v. 0 < v \<and> Fin (3 / 2) = Fin v"
    by (intro exI[of _ "3 / 2"]) simp
  have b: "isFinite (NPER (Fin (- 1)) (Fin 3) (Fin 1) None None)"
    using t2 s ex by blast
  have c: "NPER (Fin (- 1)) (Fin 3) (Fin 1) None None = Fin 0"
    using t2 s b by blast
  show ?thesis
    using q1 q2 a s b c by blast
qed

text \<open>
  The claim C5 as the specification states it asks for a result that is not finite
  whenever \<open>rate = -1\<close>. \<^verbatim>\<open>NPER(-1, 1, 0.5, 0, 0)\<close> has \<open>num/den = 2\<close> and returns
  \<^verbatim>\<open>Math.log(2) / -Infinity\<close>, which is zero.
\<close>

theorem NPER_rate_minus_one_finite:
  "NPER_num (Fin (- 1)) (Fin 1) (Fin 0) (Fin 0)
     / NPER_den (Fin (- 1)) (Fin 1) (Fin (1 / 2)) (Fin 0) = Fin 2
   \<and> NPER (Fin (- 1)) (Fin 1) (Fin (1 / 2)) (Some (Fin 0)) (Some (Fin 0)) = Fin 0
   \<and> isFinite (NPER (Fin (- 1)) (Fin 1) (Fin (1 / 2)) (Some (Fin 0)) (Some (Fin 0)))"
  by (simp add: NPER_def NPER_num_def NPER_den_def Let_def)

section \<open>Rate zero\<close>

text \<open>
  \<^verbatim>\<open>PV\<close>, \<^verbatim>\<open>FV\<close> and \<^verbatim>\<open>PMT\<close> test \<^verbatim>\<open>rate===0\<close> and return a finite number there for finite
  arguments and \<open>periods > 0\<close>; \<^verbatim>\<open>IPMT\<close> and \<^verbatim>\<open>PPMT\<close> are built from them.
\<close>

lemma rate_zero_finite:
  assumes "0 < periods"
    and "undefined_or (Fin 0) future = Fin fu" "undefined_or (Fin 0) type = Fin ty"
  shows "isFinite (PV (Fin 0) (Fin periods) (Fin payment) (Fin fu) type)"
    and "isFinite (FV (Fin 0) (Fin periods) (Fin payment) (Fin present) type)"
    and "isFinite (PMT (Fin 0) (Fin periods) (Fin present) future type)"
    and "isFinite (IPMT (Fin 0) (Fin period) (Fin periods) (Fin present) future type)"
    and "isFinite (PPMT (Fin 0) (Fin period) (Fin periods) (Fin present) future type)"
proof -
  show "isFinite (PV (Fin 0) (Fin periods) (Fin payment) (Fin fu) type)"
    by (simp add: PV_def Let_def)
  show "isFinite (FV (Fin 0) (Fin periods) (Fin payment) (Fin present) type)"
    by (simp add: FV_def Let_def)
  show p: "isFinite (PMT (Fin 0) (Fin periods) (Fin present) future type)"
    using assms by (intro PMT_finite[where fu = fu and ty = ty]) simp_all
  show i: "isFinite (IPMT (Fin 0) (Fin period) (Fin periods) (Fin present) future type)"
    using assms by (intro IPMT_finite[where fu = fu and ty = ty]) simp_all
  from p obtain a where a: "PMT (Fin 0) (Fin periods) (Fin present) future type = Fin a"
    by (rule isFinite_obtain)
  from i obtain b where b: "IPMT (Fin 0) (Fin period) (Fin periods) (Fin present) future type = Fin b"
    by (rule isFinite_obtain)
  show "isFinite (PPMT (Fin 0) (Fin period) (Fin periods) (Fin present) future type)"
    by (simp add: PPMT_def a b)
qed

text \<open>
  \<^verbatim>\<open>NPER\<close> has no such test: at rate 0 it divides by \<^verbatim>\<open>Math.log(1)\<close>, which is 0, and the
  result is never finite.
\<close>

lemma NPER_rate_zero_not_finite:
  "\<not> isFinite (NPER (Fin 0) payment present future type)"
  by (simp add: NPER_def Let_def div_zero_not_finite)

text \<open>
  C7 asks for a finite result of every operation at rate 0. \<^verbatim>\<open>NPER(0, -100, 1000, 0, 0)\<close>
  has \<open>num = den = -100\<close> and returns \<^verbatim>\<open>Math.log(1) / Math.log(1)\<close>, which is \<^verbatim>\<open>NaN\<close>.
\<close>

theorem NPER_rate_zero_NaN:
  "NPER (Fin 0) (Fin (- 100)) (Fin 1000) (Some (Fin 0)) (Some (Fin 0)) = NaN"
  by (simp add: NPER_def NPER_num_def NPER_den_def Let_def)

section \<open>The rate solver\<close>

lemma v_i_RATE_body [simp]:
  "v_i (RATE_body periods payment present future type s) = Suc (v_i s)"
  by (simp add: RATE_body_def Let_def split: prod.splits)

lemma v_i_funpow:
  "v_i ((RATE_body periods payment present future type ^^ n) s) = n + v_i s"
  by (induction n) simp_all

lemma not_less_jsnum:
  fixes a b :: jsnum
  shows "(\<not> a < b) = (b \<le> a \<or> isNaN a \<or> isNaN b)"
  by (cases a; cases b) auto

text \<open>
  The loop is a number of runs of its body: each state before the last passes the loop
  test, the last one fails it, and the counter bounds the number of runs.
\<close>

lemma RATE_while_iterates:
  "\<exists>n. n + v_i s \<le> max iterMax (v_i s)
     \<and> RATE_while periods payment present future type s
         = (RATE_body periods payment present future type ^^ n) s
     \<and> (\<forall>k<n. RATE_cond ((RATE_body periods payment present future type ^^ k) s))
     \<and> \<not> RATE_cond ((RATE_body periods payment present future type ^^ n) s)"
proof (induction periods payment present future type s rule: RATE_while.induct)
  case (1 periods payment present future type s)
  let ?b = "RATE_body periods payment present future type"
  show ?case
  proof (cases "RATE_cond s")
    case False
    then have "RATE_while periods payment present future type s = s"
      by (subst RATE_while.simps) simp
    with False show ?thesis
      by (intro exI[of _ 0]) simp
  next
    case True
    then have lt: "v_i s < iterMax"
      by (simp add: RATE_cond_def)
    from "1.IH"[OF True] obtain n where n:
      "n + v_i (?b s) \<le> max iterMax (v_i (?b s))"
      "RATE_while periods payment present future type (?b s) = (?b ^^ n) (?b s)"
      "\<forall>k<n. RATE_cond ((?b ^^ k) (?b s))"
      "\<not> RATE_cond ((?b ^^ n) (?b s))"
      by blast
    have w: "RATE_while periods payment present future type s = (?b ^^ Suc n) s"
      using True n(2) by (subst RATE_while.simps) (simp add: funpow_swap1)
    have all: "\<forall>k<Suc n. RATE_cond ((?b ^^ k) s)"
    proof (intro allI impI)
      fix k
      assume "k < Suc n"
      then show "RATE_cond ((?b ^^ k) s)"
        using True n(3) by (cases k) (simp_all add: funpow_swap1)
    qed
    have "Suc n + v_i s \<le> max iterMax (v_i s)"
      using n(1) lt by simp
    moreover have "\<not> RATE_cond ((?b ^^ Suc n) s)"
      using n(4) by (simp add: funpow_swap1)
    ultimately show ?thesis
      using w all by blast
  qed
qed

text \<open>
  C3, as the code has it. For every input \<^verbatim>\<open>RATE\<close> returns, after some number \<open>n \<le> 50\<close> of
  runs of the loop body (one evaluation of the residual each, after the two before the
  loop). The value returned is the variable \<^verbatim>\<open>rate\<close> of the last state, in whatever way
  the loop ended. Every state before the last had \<open>|y0 - y1| > 1e-10\<close>; the last state has
  \<open>n = 50\<close>, or \<open>|y0 - y1| \<le> 1e-10\<close>, or its \<open>|y0 - y1|\<close> is \<^verbatim>\<open>NaN\<close>, on which the loop test
  \<^verbatim>\<open>>\<close> is false as well: a third way out, with the tolerance unmet and the cap not
  reached.
\<close>


theorem RATE_terminates:
  fixes periods payment present :: jsnum and future type guess :: "jsnum option"
  defines "st \<equiv> RATE_after periods payment present future type guess"
  shows "\<exists>n\<le>50.
           RATE_run periods payment present future type guess = st n
         \<and> RATE periods payment present future type guess = v_rate (st n)
         \<and> (\<forall>k<n. epsMax < Math_abs (v_y0 (st k) - v_y1 (st k)))
         \<and> (n = 50 \<or> Math_abs (v_y0 (st n) - v_y1 (st n)) \<le> epsMax
               \<or> isNaN (Math_abs (v_y0 (st n) - v_y1 (st n))))"
proof -
  define fu ty g where "fu = undefined_or (Fin 0) future"
    and "ty = undefined_or (Fin 0) type" and "g = undefined_or (Fin (1 / 100)) guess"
  let ?s0 = "RATE_init periods payment present fu ty g"
  have st: "st k = (RATE_body periods payment present fu ty ^^ k) ?s0" for k
    by (simp add: st_def RATE_after_def Let_def fu_def ty_def g_def)
  have i0: "v_i ?s0 = 0"
    by (simp add: RATE_init_def Let_def split: prod.splits)
  obtain n where n:
    "n + v_i ?s0 \<le> max iterMax (v_i ?s0)"
    "RATE_while periods payment present fu ty ?s0 = st n"
    "\<forall>k<n. RATE_cond (st k)"
    "\<not> RATE_cond (st n)"
    unfolding st using RATE_while_iterates[of ?s0 periods payment present fu ty] by blast
  have le: "n \<le> 50"
    using n(1) i0 by (simp add: iterMax_def)
  have run: "RATE_run periods payment present future type guess = st n"
    using n(2) by (simp add: RATE_run_def Let_def fu_def ty_def g_def)
  have "v_i (st n) = n"
    unfolding st by (simp add: v_i_funpow i0)
  then have ex: "n = 50 \<or> \<not> epsMax < Math_abs (v_y0 (st n) - v_y1 (st n))"
    using n(4) le by (auto simp add: RATE_cond_def iterMax_def)
  have "\<not> isNaN epsMax"
    by (simp add: epsMax_def)
  with ex have "n = 50 \<or> Math_abs (v_y0 (st n) - v_y1 (st n)) \<le> epsMax
               \<or> isNaN (Math_abs (v_y0 (st n) - v_y1 (st n)))"
    by (auto simp add: not_less_jsnum)
  moreover have "\<forall>k<n. epsMax < Math_abs (v_y0 (st k) - v_y1 (st k))"
    using n(3) by (simp add: RATE_cond_def)
  ultimately show ?thesis
    using le run by (auto simp add: RATE_def)
qed

text \<open>
  A run that ends on the tolerance: one period, no payment, 100 paid now and 110 received
  at the end, the default guess 0.01. The residual is linear in the rate, the first
  secant step lands on the root 0.1, and the second finds \<open>y0 = y1 = 0\<close>.
\<close>

lemma RATE_example_states:
  "RATE_after (Fin 1) (Fin 0) (Fin (- 100)) (Some (Fin 110)) None None 0 =
     \<lparr>v_y = Fin 9, v_y0 = Fin 10, v_y1 = Fin 9, v_x0 = Fin 0, v_x1 = Fin (1 / 100),
      v_f = Fin (101 / 100), v_i = 0, v_rate = Fin (1 / 100)\<rparr>"
  "RATE_after (Fin 1) (Fin 0) (Fin (- 100)) (Some (Fin 110)) None None (Suc 0) =
     \<lparr>v_y = Fin 0, v_y0 = Fin 9, v_y1 = Fin 0, v_x0 = Fin (1 / 100), v_x1 = Fin (1 / 10),
      v_f = Fin (11 / 10), v_i = 1, v_rate = Fin (1 / 10)\<rparr>"
  "RATE_after (Fin 1) (Fin 0) (Fin (- 100)) (Some (Fin 110)) None None 2 =
     \<lparr>v_y = Fin 0, v_y0 = Fin 0, v_y1 = Fin 0, v_x0 = Fin (1 / 10), v_x1 = Fin (1 / 10),
      v_f = Fin (11 / 10), v_i = 2, v_rate = Fin (1 / 10)\<rparr>"
proof -
  have i: "RATE_init (Fin 1) (Fin 0) (Fin (- 100)) (Fin 110) (Fin 0) (Fin (1 / 100)) =
     \<lparr>v_y = Fin 9, v_y0 = Fin 10, v_y1 = Fin 9, v_x0 = Fin 0, v_x1 = Fin (1 / 100),
      v_f = Fin (101 / 100), v_i = 0, v_rate = Fin (1 / 100)\<rparr>"
    by (simp add: RATE_init_def RATE_block_def Let_def epsMax_def)
  have b1: "RATE_body (Fin 1) (Fin 0) (Fin (- 100)) (Fin 110) (Fin 0)
     \<lparr>v_y = Fin 9, v_y0 = Fin 10, v_y1 = Fin 9, v_x0 = Fin 0, v_x1 = Fin (1 / 100),
      v_f = Fin (101 / 100), v_i = 0, v_rate = Fin (1 / 100)\<rparr> =
     \<lparr>v_y = Fin 0, v_y0 = Fin 9, v_y1 = Fin 0, v_x0 = Fin (1 / 100), v_x1 = Fin (1 / 10),
      v_f = Fin (11 / 10), v_i = 1, v_rate = Fin (1 / 10)\<rparr>"
    by (simp add: RATE_body_def RATE_block_def Let_def epsMax_def)
  have b2: "RATE_body (Fin 1) (Fin 0) (Fin (- 100)) (Fin 110) (Fin 0)
     \<lparr>v_y = Fin 0, v_y0 = Fin 9, v_y1 = Fin 0, v_x0 = Fin (1 / 100), v_x1 = Fin (1 / 10),
      v_f = Fin (11 / 10), v_i = 1, v_rate = Fin (1 / 10)\<rparr> =
     \<lparr>v_y = Fin 0, v_y0 = Fin 0, v_y1 = Fin 0, v_x0 = Fin (1 / 10), v_x1 = Fin (1 / 10),
      v_f = Fin (11 / 10), v_i = 2, v_rate = Fin (1 / 10)\<rparr>"
    by (simp add: RATE_body_def RATE_block_def Let_def epsMax_def)
  show "RATE_after (Fin 1) (Fin 0) (Fin (- 100)) (Some (Fin 110)) None None 0 =
     \<lparr>v_y = Fin 9, v_y0 = Fin 10, v_y1 = Fin 9, v_x0 = Fin 0, v_x1 = Fin (1 / 100),
      v_f = Fin (101 / 100), v_i = 0, v_rate = Fin (1 / 100)\<rparr>"
    by (simp add: RATE_after_def Let_def i)
  show "RATE_after (Fin 1) (Fin 0) (Fin (- 100)) (Some (Fin 110)) None None (Suc 0) =
     \<lparr>v_y = Fin 0, v_y0 = Fin 9, v_y1 = Fin 0, v_x0 = Fin (1 / 100), v_x1 = Fin (1 / 10),
      v_f = Fin (11 / 10), v_i = 1, v_rate = Fin (1 / 10)\<rparr>"
    by (simp add: RATE_after_def Let_def i b1)
  show "RATE_after (Fin 1) (Fin 0) (Fin (- 100)) (Some (Fin 110)) None None 2 =
     \<lparr>v_y = Fin 0, v_y0 = Fin 0, v_y1 = Fin 0, v_x0 = Fin (1 / 10), v_x1 = Fin (1 / 10),
      v_f = Fin (11 / 10), v_i = 2, v_rate = Fin (1 / 10)\<rparr>"
  proof -
    have two: "(f ^^ 2) s = f (f s)" for f :: "RATE_vars \<Rightarrow> RATE_vars" and s
      by (simp add: numeral_2_eq_2)
    show ?thesis
      by (simp only: RATE_after_def Let_def undefined_or.simps two i b1 b2)
  qed
qed

theorem RATE_terminates_witness:
  "RATE_run (Fin 1) (Fin 0) (Fin (- 100)) (Some (Fin 110)) None None
     = RATE_after (Fin 1) (Fin 0) (Fin (- 100)) (Some (Fin 110)) None None 2
   \<and> RATE (Fin 1) (Fin 0) (Fin (- 100)) (Some (Fin 110)) None None = Fin (1 / 10)"
proof -
  let ?st = "RATE_after (Fin 1) (Fin 0) (Fin (- 100)) (Some (Fin 110)) None None"
  obtain n where n: "n \<le> 50"
    "RATE_run (Fin 1) (Fin 0) (Fin (- 100)) (Some (Fin 110)) None None = ?st n"
    "RATE (Fin 1) (Fin 0) (Fin (- 100)) (Some (Fin 110)) None None = v_rate (?st n)"
    "\<forall>k<n. epsMax < Math_abs (v_y0 (?st k) - v_y1 (?st k))"
    "n = 50 \<or> Math_abs (v_y0 (?st n) - v_y1 (?st n)) \<le> epsMax
       \<or> isNaN (Math_abs (v_y0 (?st n) - v_y1 (?st n)))"
    using RATE_terminates [of "Fin 1" "Fin 0" "Fin (- 100)" "Some (Fin 110)" None None]
    by blast
  have "\<not> epsMax < Math_abs (v_y0 (?st 2) - v_y1 (?st 2))"
    by (simp add: RATE_example_states epsMax_def)
  then have "\<not> 2 < n"
    using n(4) by blast
  moreover have "n \<noteq> 0"
  proof
    assume "n = 0"
    with n(5) show False
      by (simp add: RATE_example_states epsMax_def)
  qed
  moreover have "n \<noteq> 1"
  proof
    assume "n = 1"
    with n(5) show False
      by (simp add: RATE_example_states epsMax_def)
  qed
  ultimately have "n = 2"
    by linarith
  then show ?thesis
    using n(2,3) by (simp add: RATE_example_states)
qed

text \<open>
  The claim C3 as stated has two ways out of the loop, the tolerance and the cap.
  \<^verbatim>\<open>RATE(3, -1000, 500)\<close> with the default guess 0.01: the first secant step gives the rate
  \<open>-50000/29899\<close>, below \<open>-1\<close>, so \<^verbatim>\<open>Math.log(1+rate)\<close> and the residual are \<^verbatim>\<open>NaN\<close>; the loop
  test is false on \<open>|y0 - y1| = NaN\<close> and \<^verbatim>\<open>RATE\<close> returns after one run of the body, with
  \<open>|y0 - y1| \<le> 1e-10\<close> false.
\<close>

lemma exp_3_ln:
  fixes x :: real
  assumes "0 < x"
  shows "exp (3 * ln x) = x ^ 3"
proof -
  have "exp (3 * ln x) = exp (of_nat 3 * ln x)"
    by simp
  also have "\<dots> = exp (ln x) ^ 3"
    by (rule exp_of_nat_mult)
  finally show ?thesis
    using assms by simp
qed

lemma RATE_nan_states:
  "RATE_init (Fin 3) (Fin (- 1000)) (Fin 500) (Fin 0) (Fin 0) (Fin (1 / 100)) =
     \<lparr>v_y = Fin (- (5029899 / 2000)), v_y0 = Fin (- 2500), v_y1 = Fin (- (5029899 / 2000)),
      v_x0 = Fin 0, v_x1 = Fin (1 / 100), v_f = Fin (1030301 / 1000000), v_i = 0,
      v_rate = Fin (1 / 100)\<rparr>"
  "RATE_body (Fin 3) (Fin (- 1000)) (Fin 500) (Fin 0) (Fin 0)
     \<lparr>v_y = Fin (- (5029899 / 2000)), v_y0 = Fin (- 2500), v_y1 = Fin (- (5029899 / 2000)),
      v_x0 = Fin 0, v_x1 = Fin (1 / 100), v_f = Fin (1030301 / 1000000), v_i = 0,
      v_rate = Fin (1 / 100)\<rparr> =
     \<lparr>v_y = NaN, v_y0 = Fin (- (5029899 / 2000)), v_y1 = NaN,
      v_x0 = Fin (1 / 100), v_x1 = Fin (- (50000 / 29899)), v_f = NaN, v_i = 1,
      v_rate = Fin (- (50000 / 29899))\<rparr>"
proof -
  have e: "exp (3 * ln (101 / 100 :: real)) = 1030301 / 1000000"
    by (simp add: exp_3_ln power3_eq_cube)
  show "RATE_init (Fin 3) (Fin (- 1000)) (Fin 500) (Fin 0) (Fin 0) (Fin (1 / 100)) =
     \<lparr>v_y = Fin (- (5029899 / 2000)), v_y0 = Fin (- 2500), v_y1 = Fin (- (5029899 / 2000)),
      v_x0 = Fin 0, v_x1 = Fin (1 / 100), v_f = Fin (1030301 / 1000000), v_i = 0,
      v_rate = Fin (1 / 100)\<rparr>"
    by (simp add: RATE_init_def RATE_block_def Let_def epsMax_def e)
  show "RATE_body (Fin 3) (Fin (- 1000)) (Fin 500) (Fin 0) (Fin 0)
     \<lparr>v_y = Fin (- (5029899 / 2000)), v_y0 = Fin (- 2500), v_y1 = Fin (- (5029899 / 2000)),
      v_x0 = Fin 0, v_x1 = Fin (1 / 100), v_f = Fin (1030301 / 1000000), v_i = 0,
      v_rate = Fin (1 / 100)\<rparr> =
     \<lparr>v_y = NaN, v_y0 = Fin (- (5029899 / 2000)), v_y1 = NaN,
      v_x0 = Fin (1 / 100), v_x1 = Fin (- (50000 / 29899)), v_f = NaN, v_i = 1,
      v_rate = Fin (- (50000 / 29899))\<rparr>"
    by (simp add: RATE_body_def RATE_block_def Let_def epsMax_def minus_jsnum_def)
qed

theorem RATE_exit_on_NaN:
  "RATE_run (Fin 3) (Fin (- 1000)) (Fin 500) None None None
     = RATE_after (Fin 3) (Fin (- 1000)) (Fin 500) None None None 1
   \<and> v_i (RATE_run (Fin 3) (Fin (- 1000)) (Fin 500) None None None) = 1
   \<and> Math_abs (v_y0 (RATE_run (Fin 3) (Fin (- 1000)) (Fin 500) None None None)
               - v_y1 (RATE_run (Fin 3) (Fin (- 1000)) (Fin 500) None None None)) = NaN
   \<and> \<not> Math_abs (v_y0 (RATE_run (Fin 3) (Fin (- 1000)) (Fin 500) None None None)
               - v_y1 (RATE_run (Fin 3) (Fin (- 1000)) (Fin 500) None None None)) \<le> epsMax
   \<and> isFinite (RATE (Fin 3) (Fin (- 1000)) (Fin 500) None None None)
   \<and> RATE (Fin 3) (Fin (- 1000)) (Fin 500) None None None < Fin (- 1)"
proof -
  have run: "RATE_run (Fin 3) (Fin (- 1000)) (Fin 500) None None None =
     \<lparr>v_y = NaN, v_y0 = Fin (- (5029899 / 2000)), v_y1 = NaN,
      v_x0 = Fin (1 / 100), v_x1 = Fin (- (50000 / 29899)), v_f = NaN, v_i = 1,
      v_rate = Fin (- (50000 / 29899))\<rparr>"
    unfolding RATE_run_def Let_def undefined_or.simps RATE_nan_states(1)
    apply (subst RATE_while.simps)
    apply (simp add: RATE_cond_def epsMax_def iterMax_def RATE_nan_states(2))
    apply (subst RATE_while.simps)
    apply (simp add: RATE_cond_def epsMax_def iterMax_def minus_jsnum_def)
    done
  have aft: "RATE_after (Fin 3) (Fin (- 1000)) (Fin 500) None None None (Suc 0) =
     \<lparr>v_y = NaN, v_y0 = Fin (- (5029899 / 2000)), v_y1 = NaN,
      v_x0 = Fin (1 / 100), v_x1 = Fin (- (50000 / 29899)), v_f = NaN, v_i = 1,
      v_rate = Fin (- (50000 / 29899))\<rparr>"
    by (simp add: RATE_after_def Let_def RATE_nan_states)
  show ?thesis
    by (simp add: RATE_def run aft minus_jsnum_def)
qed

text \<open>
  Before the loop the block assigns \<^verbatim>\<open>y\<close>, the residual at the guess; then \<^verbatim>\<open>y1\<close> is
  computed again by the exponential formula from \<^verbatim>\<open>f\<close>, and \<^verbatim>\<open>y\<close> is not read. When
  \<open>|guess| < 1e-10\<close> is false the block has just assigned \<^verbatim>\<open>f\<close>, and \<^verbatim>\<open>y1\<close> is that
  residual.
\<close>

lemma RATE_init_y1_exponential:
  assumes "\<not> Math_abs guess < epsMax"
  shows "v_y1 (RATE_init periods payment present future type guess)
           = v_y (RATE_init periods payment present future type guess)"
  using assms by (simp add: RATE_init_def RATE_block_def Let_def)

text \<open>
  When \<open>|guess| < 1e-10\<close> the block leaves \<^verbatim>\<open>f\<close> at its initial 0, and \<^verbatim>\<open>y1\<close> is the
  exponential formula at \<open>f = 0\<close>, while the residual at the guess is the linearised one.
\<close>

lemma RATE_init_y1_stale:
  assumes "Math_abs guess < epsMax"
  shows "v_y1 (RATE_init periods payment present future type guess)
           = present * Fin 0 + payment * (Fin 1 / guess + type) * (Fin 0 - Fin 1) + future"
    and "v_y (RATE_init periods payment present future type guess)
           = present * (Fin 1 + periods * guess) + payment * (Fin 1 + guess * type) * periods + future"
  using assms by (simp_all add: RATE_init_def RATE_block_def Let_def)

text \<open>
  C2 asks that the iteration start from \<open>x1 = guess\<close> with \<open>y1\<close> the residual at the guess.
  \<^verbatim>\<open>RATE(10, -100, 800, 0, 0, 0)\<close>: the residual at the guess 0 is \<open>-200\<close> (and \<^verbatim>\<open>y\<close> holds
  it), \<^verbatim>\<open>y1\<close> is \<^verbatim>\<open>Infinity\<close>, the first secant step is \<^verbatim>\<open>NaN\<close>, and \<^verbatim>\<open>RATE\<close> returns \<^verbatim>\<open>NaN\<close>.
\<close>

theorem RATE_guess_zero:
  "v_y (RATE_init (Fin 10) (Fin (- 100)) (Fin 800) (Fin 0) (Fin 0) (Fin 0)) = Fin (- 200)
   \<and> v_y1 (RATE_init (Fin 10) (Fin (- 100)) (Fin 800) (Fin 0) (Fin 0) (Fin 0)) = PInf
   \<and> RATE (Fin 10) (Fin (- 100)) (Fin 800) (Some (Fin 0)) (Some (Fin 0)) (Some (Fin 0)) = NaN"
proof -
  have i: "RATE_init (Fin 10) (Fin (- 100)) (Fin 800) (Fin 0) (Fin 0) (Fin 0) =
     \<lparr>v_y = Fin (- 200), v_y0 = Fin (- 200), v_y1 = PInf, v_x0 = Fin 0, v_x1 = Fin 0,
      v_f = Fin 0, v_i = 0, v_rate = Fin 0\<rparr>"
    by (simp add: RATE_init_def RATE_block_def Let_def epsMax_def minus_jsnum_def)
  have b: "RATE_body (Fin 10) (Fin (- 100)) (Fin 800) (Fin 0) (Fin 0)
     \<lparr>v_y = Fin (- 200), v_y0 = Fin (- 200), v_y1 = PInf, v_x0 = Fin 0, v_x1 = Fin 0,
      v_f = Fin 0, v_i = 0, v_rate = Fin 0\<rparr> =
     \<lparr>v_y = NaN, v_y0 = PInf, v_y1 = NaN, v_x0 = Fin 0, v_x1 = NaN,
      v_f = NaN, v_i = 1, v_rate = NaN\<rparr>"
    by (simp add: RATE_body_def RATE_block_def Let_def epsMax_def minus_jsnum_def)
  have "RATE (Fin 10) (Fin (- 100)) (Fin 800) (Some (Fin 0)) (Some (Fin 0)) (Some (Fin 0)) = NaN"
    unfolding RATE_def RATE_run_def Let_def undefined_or.simps i
    apply (subst RATE_while.simps)
    apply (simp add: RATE_cond_def epsMax_def iterMax_def minus_jsnum_def b)
    apply (subst RATE_while.simps)
    apply (simp add: RATE_cond_def epsMax_def iterMax_def minus_jsnum_def)
    done
  then show ?thesis
    by (simp add: i)
qed

end
